theory Spec2Isabelle
  imports Main "HOL-Library.Sublist" "HOL-Library.Char_ord" "HOL-Library.List_Lexorder"
begin

section \<open>Food counts from a GNPS molecular network (gfop/get\_food\_counts.py)\<close>

text \<open>
  The module works on pandas tables.  A table is modelled as the list of its rows, a row
  as a record of the columns the code reads, a missing cell (NaN) as \<open>None\<close>.  Every
  exception the code can raise on such tables is a value of \<open>error\<close>; a function that
  can raise returns \<open>error + 'a\<close> with the exception to the left.
\<close>

datatype error = KeyError | TypeError | ValueError | InvalidIndexError | FileNotFoundError

subsection \<open>Tables\<close>

text \<open>
  The clustering table: one numeric column per GNPS group, the group annotation
  \<open>DefaultGroups\<close> and the \<open>|\<close>-joined list \<open>UniqueFileSources\<close>.
\<close>

record cluster_row =
  G1 :: int
  G2 :: int
  G3 :: int
  G4 :: int
  G5 :: int
  G6 :: int
  DefaultGroups :: string
  UniqueFileSources :: string

type_synonym gnps_table = "cluster_row list"

text \<open>
  The Global FoodOmics metadata: the reference file name, the sample name, one label per
  ontology level and the simple/complex flag.
\<close>

record food_record =
  food_filename :: string
  sample_name :: "string option"
  sample_type_group1 :: "string option"
  sample_type_group2 :: "string option"
  sample_type_group3 :: "string option"
  sample_type_group4 :: "string option"
  sample_type_group5 :: "string option"
  sample_type_group6 :: "string option"
  simple_complex :: "string option"

text \<open>
  \<open>get_sample_types\<close> returns the metadata indexed by file name: a list of
  (index label, row) pairs, since pandas does not force an index to be unique.
\<close>

type_synonym sample_types_table = "(string \<times> food_record) list"

text \<open>A \<open>value_counts\<close> result: labels with their counts, in the order of the series.\<close>

type_synonym food_counts = "(string \<times> int) list"

text \<open>
  The data frame of \<open>get_dataset_food_counts\<close>: the row index (file names), the
  column labels, and the cells row by row.
\<close>

record count_matrix =
  mat_index :: "string list"
  mat_columns :: "string list"
  mat_values :: "int list list"

text \<open>A row of the long table of \<open>get_dataset_food_counts_all\<close>.\<close>

record long_row =
  row_filename :: string
  row_food_type :: string
  row_count :: int
  row_level :: int
  row_group :: "string option"

text \<open>
  What the functions read from outside: the tab-separated files by path, as
  \<open>pd.read_csv\<close> parses them, and the packaged metadata table as
  \<open>load_food_metadata\<close> returns it (parsed, text cells stripped).  The functions take
  the world and return it, so that what they leave behind is part of their result.
\<close>

record world =
  tsv_files :: "string \<rightharpoonup> gnps_table"
  foodomics_metadata :: "food_record list"

subsection \<open>String and series helpers\<close>

text \<open>Python's \<open>s.split(sep)\<close> for a one-character separator: never an empty list.\<close>

fun split_sep :: "char \<Rightarrow> string \<Rightarrow> string list" where
  "split_sep sep [] = [[]]"
| "split_sep sep (c # cs) =
     (if c = sep then [] # split_sep sep cs
      else (case split_sep sep cs of
              [] \<Rightarrow> [[c]]
            | w # ws \<Rightarrow> (c # w) # ws))"

text \<open>Python's \<open>sep.join(parts)\<close>, to state what \<open>split_sep\<close> computes.\<close>

fun join_sep :: "char \<Rightarrow> string list \<Rightarrow> string" where
  "join_sep sep [] = []"
| "join_sep sep [w] = w"
| "join_sep sep (w # v # ws) = w @ sep # join_sep sep (v # ws)"

text \<open>\<open>drop_duplicates\<close> keeps the first occurrence of each value, in order.\<close>

fun drop_duplicates :: "'a list \<Rightarrow> 'a list" where
  "drop_duplicates [] = []"
| "drop_duplicates (x # xs) = x # drop_duplicates (filter (\<lambda>y. y \<noteq> x) xs)"

text \<open>
  \<open>Series.value_counts()\<close>: each distinct value with its number of occurrences,
  sorted by count, largest first.  pandas fixes no order among equal counts (it depends
  on the sort of the installation); the model keeps them in order of first appearance.
  Nothing the code does with a table reads the position of an entry: the code takes the
  length of a table and aligns tables by label (lemma \<open>concat_counts_entries\<close>), and
  the properties proved below read a table through its entries or by label.  The example
  tables are chosen so that no table in a closed statement has two equal counts.
\<close>

definition value_counts :: "string list \<Rightarrow> food_counts" where
  "value_counts xs =
     sort_key (\<lambda>p. - snd p) (map (\<lambda>l. (l, int (count_list xs l))) (drop_duplicates xs))"

text \<open>Boolean masks over the rows of a table, \<open>&\<close> and boolean indexing.\<close>

definition mask_and :: "bool list \<Rightarrow> bool list \<Rightarrow> bool list" where
  "mask_and a b = map (\<lambda>(x, y). x \<and> y) (zip a b)"

definition bool_index :: "'a list \<Rightarrow> bool list \<Rightarrow> 'a list" where
  "bool_index rows msk = map fst (filter snd (zip rows msk))"

subsection \<open>Column access on the clustering table\<close>

definition numeric_column :: "string \<Rightarrow> (cluster_row \<Rightarrow> int) option" where
  "numeric_column name =
     (if name = ''G1'' then Some G1
      else if name = ''G2'' then Some G2
      else if name = ''G3'' then Some G3
      else if name = ''G4'' then Some G4
      else if name = ''G5'' then Some G5
      else if name = ''G6'' then Some G6
      else None)"

definition text_columns :: "string list" where
  "text_columns = [''DefaultGroups'', ''UniqueFileSources'']"

text \<open>
  \<open>gnps_network[names] > 0\<close> and \<open>== 0\<close>: selecting a name that is no column raises
  KeyError; comparing a text column with a number raises TypeError.
\<close>

definition select_columns :: "string list \<Rightarrow> error + (cluster_row \<Rightarrow> int) list" where
  "select_columns names =
     (if list_ex (\<lambda>n. numeric_column n = None \<and> n \<notin> set text_columns) names then Inl KeyError
      else if list_ex (\<lambda>n. n \<in> set text_columns) names then Inl TypeError
      else Inr (List.map_filter numeric_column names))"

subsection \<open>\<open>get_sample_types\<close>\<close>

definition load_food_metadata :: "world \<Rightarrow> food_record list \<times> world" where
  "load_food_metadata w = (foodomics_metadata w, w)"

definition get_sample_types :: "string \<Rightarrow> world \<Rightarrow> sample_types_table \<times> world" where
  "get_sample_types simple_complex_sel w =
     (case load_food_metadata w of
        (gfop_metadata, w1) \<Rightarrow>
          (let gfop_metadata' =
                 (if simple_complex_sel \<noteq> ''all''
                  then filter (\<lambda>r. simple_complex r = Some simple_complex_sel) gfop_metadata
                  else gfop_metadata)
           in (map (\<lambda>r. (food_filename r, r)) gfop_metadata', w1)))"

subsection \<open>\<open>get_sample_metadata\<close>\<close>

text \<open>The result frame has the columns \<open>group\<close> and \<open>filename\<close>: a list of pairs.\<close>

definition get_sample_metadata :: "gnps_table \<Rightarrow> string list \<Rightarrow> (string \<times> string) list" where
  "get_sample_metadata gnps_network all_groups =
     (let df_filtered = filter (\<lambda>r. \<not> (CHR '','' \<in> set (DefaultGroups r))) gnps_network;
          df_selected = filter (\<lambda>r. DefaultGroups r \<in> set all_groups) df_filtered;
          df_exploded_files =
            concat (map (\<lambda>r. map (\<lambda>f. (DefaultGroups r, f))
                                   (split_sep (CHR ''|'') (UniqueFileSources r)))
                        df_selected)
      in drop_duplicates df_exploded_files)"

subsection \<open>\<open>get_file_food_counts\<close>\<close>

text \<open>
  The \<open>filename\<close> argument is annotated \<open>str\<close> and iterated over: a string yields
  its characters, a list its elements.
\<close>

datatype py_filename = PyStr string | PyList "string list"

fun iter_filename :: "py_filename \<Rightarrow> string list" where
  "iter_filename (PyStr s) = map (\<lambda>c. [c]) s"
| "iter_filename (PyList fns) = fns"

definition groups :: "string list" where
  "groups = [''G1'', ''G2'', ''G3'', ''G4'', ''G5'', ''G6'']"

definition groups_excluded :: "string list \<Rightarrow> string list \<Rightarrow> string list" where
  "groups_excluded all_groups some_groups =
     filter (\<lambda>g. g \<notin> set (all_groups @ some_groups)) groups"

text \<open>Lines 84 to 87: the three masks, joined with \<open>&\<close>, index the table.\<close>

definition select_groups :: "gnps_table \<Rightarrow> string list \<Rightarrow> string list \<Rightarrow> error + gnps_table" where
  "select_groups gnps_network all_groups some_groups =
     (case select_columns all_groups of
        Inl e \<Rightarrow> Inl e
      | Inr all_cols \<Rightarrow>
     (case select_columns some_groups of
        Inl e \<Rightarrow> Inl e
      | Inr some_cols \<Rightarrow>
     (case select_columns (groups_excluded all_groups some_groups) of
        Inl e \<Rightarrow> Inl e
      | Inr excluded_cols \<Rightarrow>
          Inr (bool_index gnps_network
                 (mask_and
                    (mask_and (map (\<lambda>r. list_all (\<lambda>c. c r > 0) all_cols) gnps_network)
                              (map (\<lambda>r. list_ex (\<lambda>c. c r > 0) some_cols) gnps_network))
                    (map (\<lambda>r. list_all (\<lambda>c. c r = 0) excluded_cols) gnps_network))))))"

text \<open>Lines 88 to 90: \<open>fn in cluster_fn\<close> is substring containment.\<close>

definition select_files :: "gnps_table \<Rightarrow> py_filename \<Rightarrow> gnps_table" where
  "select_files df_selected filename =
     filter (\<lambda>r. list_ex (\<lambda>fn. sublist fn (UniqueFileSources r)) (iter_filename filename))
            df_selected"

text \<open>Line 94: the column of the requested level, \<open>sample_name\<close> when the level is not positive.\<close>

definition sample_type_column :: "int \<Rightarrow> error + (food_record \<Rightarrow> string option)" where
  "sample_type_column level =
     (if level > 0 then
        (if level = 1 then Inr sample_type_group1
         else if level = 2 then Inr sample_type_group2
         else if level = 3 then Inr sample_type_group3
         else if level = 4 then Inr sample_type_group4
         else if level = 5 then Inr sample_type_group5
         else if level = 6 then Inr sample_type_group6
         else Inl KeyError)
      else Inr sample_name)"

text \<open>
  Lines 96 and 97: \<open>reindex\<close> looks every file name up in the index, \<open>dropna\<close> drops
  the names not found and the missing labels.  On an index with a duplicate label pandas
  returns the column as it is when the file names are the index itself, and raises
  ValueError (cannot reindex on an axis with duplicate labels) for any other file names,
  also for none.
\<close>

definition reindex_dropna ::
  "sample_types_table \<Rightarrow> (food_record \<Rightarrow> string option) \<Rightarrow> string list \<Rightarrow> error + string list" where
  "reindex_dropna sample_types col filenames =
     (if distinct (map fst sample_types)
      then Inr (List.map_filter
                  (\<lambda>f. case map_of sample_types f of None \<Rightarrow> None | Some r \<Rightarrow> col r)
                  filenames)
      else if filenames = map fst sample_types
      then Inr (List.map_filter (\<lambda>p. col (snd p)) sample_types)
      else Inl ValueError)"

text \<open>
  Lines 91 and 92: the file lists of the rows kept, split and exploded.  When lines 84 to
  87 keep no row, the mask of lines 88 to 90 is an empty series of dtype object, which
  pandas does not take for a boolean mask: indexing with it selects no column, and reading
  the column \<open>UniqueFileSources\<close> on line 91 raises KeyError.
\<close>

definition explode_file_sources :: "gnps_table \<Rightarrow> gnps_table \<Rightarrow> error + string list" where
  "explode_file_sources df_groups df_selected =
     (if df_groups = [] then Inl KeyError
      else Inr (concat (map (\<lambda>r. split_sep (CHR ''|'') (UniqueFileSources r)) df_selected)))"

text \<open>Lines 82 to 97: the labels of the reference files that share a cluster with the file.\<close>

definition sample_types_selected ::
  "gnps_table \<Rightarrow> sample_types_table \<Rightarrow> string list \<Rightarrow> string list \<Rightarrow> py_filename \<Rightarrow> int
     \<Rightarrow> error + string list" where
  "sample_types_selected gnps_network sample_types all_groups some_groups filename level =
     (case select_groups gnps_network all_groups some_groups of
        Inl e \<Rightarrow> Inl e
      | Inr df_groups \<Rightarrow>
          (let df_selected = select_files df_groups filename
           in case explode_file_sources df_groups df_selected of
                Inl e \<Rightarrow> Inl e
              | Inr filenames \<Rightarrow>
                  (case sample_type_column level of
                     Inl e \<Rightarrow> Inl e
                   | Inr col \<Rightarrow> reindex_dropna sample_types col filenames)))"

text \<open>Lines 99 to 108: the water count as noise floor, and the counts above it.\<close>

definition noise_filter :: "int \<Rightarrow> string list \<Rightarrow> food_counts" where
  "noise_filter level selected =
     (let water_count = (if level > 0 then int (length (filter (\<lambda>l. l = ''water'') selected)) else 0);
          sample_counts = value_counts selected;
          sample_counts_valid = map fst (filter (\<lambda>p. snd p > water_count) sample_counts)
      in value_counts (filter (\<lambda>l. l \<in> set sample_counts_valid) selected))"

definition get_file_food_counts ::
  "gnps_table \<Rightarrow> sample_types_table \<Rightarrow> string list \<Rightarrow> string list \<Rightarrow> py_filename \<Rightarrow> int
     \<Rightarrow> error + food_counts" where
  "get_file_food_counts gnps_network sample_types all_groups some_groups filename level =
     (case sample_types_selected gnps_network sample_types all_groups some_groups filename level of
        Inl e \<Rightarrow> Inl e
      | Inr selected \<Rightarrow> Inr (noise_filter level selected))"

subsection \<open>\<open>get_dataset_food_counts\<close>\<close>

definition read_csv :: "string \<Rightarrow> world \<Rightarrow> (error + gnps_table) \<times> world" where
  "read_csv path w =
     (case tsv_files w path of
        None \<Rightarrow> (Inl FileNotFoundError, w)
      | Some t \<Rightarrow> (Inr t, w))"

text \<open>
  The loop of lines 142 to 146 over the file names of the metadata, with the two lists it
  appends to.  The caller passes the file name in a list of one element.
\<close>

fun file_loop ::
  "gnps_table \<Rightarrow> sample_types_table \<Rightarrow> string list \<Rightarrow> string list \<Rightarrow> int \<Rightarrow> string list
     \<Rightarrow> food_counts list \<times> string list \<Rightarrow> error + food_counts list \<times> string list" where
  "file_loop gnps_network sample_types all_groups some_groups level [] acc = Inr acc"
| "file_loop gnps_network sample_types all_groups some_groups level (filename # rest) (food_counts, filenames) =
     (case get_file_food_counts gnps_network sample_types all_groups some_groups (PyList [filename]) level of
        Inl e \<Rightarrow> Inl e
      | Inr file_food_counts \<Rightarrow>
          (if length file_food_counts > 0
           then file_loop gnps_network sample_types all_groups some_groups level rest
                  (food_counts @ [file_food_counts], filenames @ [filename])
           else file_loop gnps_network sample_types all_groups some_groups level rest
                  (food_counts, filenames)))"

text \<open>
  Line 147: \<open>pd.concat(food_counts, axis=1, sort=True).fillna(0).astype(int).T\<close>.
  \<open>pd.concat\<close> of an empty list raises ValueError (no objects to concatenate).
  Otherwise the labels of all series, sorted, are the columns, every series is a row, and
  a label a series does not have is the cell 0.
\<close>

definition cell :: "food_counts \<Rightarrow> string \<Rightarrow> int" where
  "cell v c = (case map_of v c of None \<Rightarrow> 0 | Some n \<Rightarrow> n)"

definition concat_counts :: "food_counts list \<Rightarrow> error + string list \<times> int list list" where
  "concat_counts food_counts =
     (if food_counts = [] then Inl ValueError
      else (let cols = sort (remdups (concat (map (map fst) food_counts)))
            in Inr (cols, map (\<lambda>v. map (cell v) cols) food_counts)))"

definition get_dataset_food_counts ::
  "string \<Rightarrow> string \<Rightarrow> string list \<Rightarrow> string list \<Rightarrow> int \<Rightarrow> world
     \<Rightarrow> (error + count_matrix) \<times> world" where
  "get_dataset_food_counts gnps_network sample_types all_groups some_groups level w =
     (case read_csv gnps_network w of
        (Inl e, w1) \<Rightarrow> (Inl e, w1)
      | (Inr gnps_df, w1) \<Rightarrow>
     (case get_sample_types sample_types w1 of
        (sample_types_df, w2) \<Rightarrow>
     (let metadata = get_sample_metadata gnps_df all_groups in
      case file_loop gnps_df sample_types_df all_groups some_groups level (map snd metadata) ([], []) of
        Inl e \<Rightarrow> (Inl e, w2)
      | Inr (food_counts, filenames) \<Rightarrow>
     (case concat_counts food_counts of
        Inl e \<Rightarrow> (Inl e, w2)
      | Inr (cols, vals) \<Rightarrow>
          (Inr \<lparr>mat_index = filenames, mat_columns = cols, mat_values = vals\<rparr>, w2)))))"

subsection \<open>\<open>get_dataset_food_counts_all\<close>\<close>

text \<open>
  Line 177: \<open>reset_index\<close> inserts the index as the column \<open>filename\<close> and raises
  ValueError when a column of that name exists; \<open>melt\<close> raises ValueError when a
  column is named like its value column \<open>count\<close>.  The molten frame lists, for each
  label column in turn, the cell of every row.
\<close>

definition melt_rows :: "count_matrix \<Rightarrow> (string \<times> string \<times> int) list" where
  "melt_rows food_counts =
     concat (map (\<lambda>(j, c). map (\<lambda>(f, vals). (f, c, vals ! j))
                               (zip (mat_index food_counts) (mat_values food_counts)))
                 (enumerate 0 (mat_columns food_counts)))"

definition melt :: "count_matrix \<Rightarrow> error + (string \<times> string \<times> int) list" where
  "melt food_counts =
     (if ''filename'' \<in> set (mat_columns food_counts) then Inl ValueError
      else if ''count'' \<in> set (mat_columns food_counts) then Inl ValueError
      else Inr (melt_rows food_counts))"

text \<open>The loop of lines 175 to 179 over the levels, with the list it appends to.\<close>

fun level_loop ::
  "string \<Rightarrow> string \<Rightarrow> string list \<Rightarrow> string list \<Rightarrow> int list
     \<Rightarrow> (string \<times> string \<times> int \<times> int) list list \<Rightarrow> world
     \<Rightarrow> (error + (string \<times> string \<times> int \<times> int) list list) \<times> world" where
  "level_loop gnps_network sample_types all_groups some_groups [] all_data w = (Inr all_data, w)"
| "level_loop gnps_network sample_types all_groups some_groups (level # rest) all_data w =
     (case get_dataset_food_counts gnps_network sample_types all_groups some_groups level w of
        (Inl e, w1) \<Rightarrow> (Inl e, w1)
      | (Inr food_counts, w1) \<Rightarrow>
          (case melt food_counts of
             Inl e \<Rightarrow> (Inl e, w1)
           | Inr food_counts_long \<Rightarrow>
               level_loop gnps_network sample_types all_groups some_groups rest
                 (all_data @ [map (\<lambda>(f, c, n). (f, c, n, level)) food_counts_long]) w1))"

text \<open>
  Line 181: \<open>pd.concat\<close> raises ValueError on an empty list.  Line 182:
  \<open>Series.map\<close> with a series as lookup raises InvalidIndexError when the index of
  that series has a duplicate; a file name that is no index label gets no group.
\<close>

definition get_dataset_food_counts_all ::
  "string \<Rightarrow> string \<Rightarrow> string list \<Rightarrow> string list \<Rightarrow> int \<Rightarrow> world
     \<Rightarrow> (error + long_row list) \<times> world" where
  "get_dataset_food_counts_all gnps_network sample_types all_groups some_groups levels w =
     (case read_csv gnps_network w of
        (Inl e, w1) \<Rightarrow> (Inl e, w1)
      | (Inr gnps_network_df, w1) \<Rightarrow>
     (let metadata = get_sample_metadata gnps_network_df all_groups in
      case level_loop gnps_network sample_types all_groups some_groups [0..levels] [] w1 of
        (Inl e, w2) \<Rightarrow> (Inl e, w2)
      | (Inr all_data, w2) \<Rightarrow>
          (if all_data = [] then (Inl ValueError, w2)
           else if \<not> distinct (map snd metadata) then (Inl InvalidIndexError, w2)
           else (Inr (map (\<lambda>(f, c, n, l).
                             \<lparr>row_filename = f, row_food_type = c, row_count = n, row_level = l,
                              row_group = map_of (map (\<lambda>(g, fn). (fn, g)) metadata) f\<rparr>)
                          (concat all_data)), w2))))"

subsection \<open>Reshaping the long table back\<close>

text \<open>
  The reshape of the round-trip property, written from its words: the rows of one level,
  grouped by file name and food type, with the count as cell.  File names and food types
  keep the order of their first appearance.
\<close>

definition pivot_level :: "long_row list \<Rightarrow> int \<Rightarrow> count_matrix" where
  "pivot_level long lvl =
     (let rows = filter (\<lambda>r. row_level r = lvl) long;
          idx = drop_duplicates (map row_filename rows);
          cols = drop_duplicates (map row_food_type rows)
      in \<lparr>mat_index = idx,
          mat_columns = cols,
          mat_values =
            map (\<lambda>f. map (\<lambda>c. case find (\<lambda>r. row_filename r = f \<and> row_food_type r = c) rows of
                                   None \<Rightarrow> 0
                                 | Some r \<Rightarrow> row_count r)
                            cols)
                idx\<rparr>)"

subsection \<open>Example tables\<close>

definition example_row :: "int \<Rightarrow> int \<Rightarrow> int \<Rightarrow> string \<Rightarrow> string \<Rightarrow> cluster_row" where
  "example_row g1 g2 g4 dg ufs =
     \<lparr>G1 = g1, G2 = g2, G3 = 0, G4 = g4, G5 = 0, G6 = 0,
      DefaultGroups = dg, UniqueFileSources = ufs\<rparr>"

definition example_food :: "string \<Rightarrow> string \<Rightarrow> string \<Rightarrow> food_record" where
  "example_food fn name label =
     \<lparr>food_filename = fn, sample_name = Some name,
      sample_type_group1 = Some label, sample_type_group2 = Some label,
      sample_type_group3 = Some label, sample_type_group4 = Some label,
      sample_type_group5 = Some label, sample_type_group6 = Some label,
      simple_complex = Some ''simple''\<rparr>"

text \<open>
  The scenario of the specification: one cluster with G1 = 5 and the other groups 0, two
  reference files labelled fruit and one labelled water.
\<close>

definition scenario_network :: gnps_table where
  "scenario_network =
     [\<lparr>G1 = 5, G2 = 0, G3 = 0, G4 = 0, G5 = 0, G6 = 0, DefaultGroups = ''G1'',
       UniqueFileSources = ''ref1.mzXML|ref2.mzXML|water1.mzXML''\<rparr>]"

definition scenario_sample_types :: sample_types_table where
  "scenario_sample_types =
     [(''ref1.mzXML'', example_food ''ref1.mzXML'' ''ref1'' ''fruit''),
      (''ref2.mzXML'', example_food ''ref2.mzXML'' ''ref2'' ''fruit''),
      (''water1.mzXML'', example_food ''water1.mzXML'' ''water1'' ''water'')]"

text \<open>
  A network of three study files (group G1) and seven reference files (group G4), a
  network where the only reference file a study file meets is a blank, and a small network
  of two study files.
\<close>

definition example_network :: gnps_table where
  "example_network =
     [example_row 1 0 0 ''G1'' ''s1.mzXML'',
      example_row 1 0 0 ''G1'' ''s2.mzXML|s3.mzXML'',
      example_row 1 0 3 ''G1,G4'' ''s1.mzXML|apple1.mzXML|apple2.mzXML|pear1.mzXML'',
      example_row 1 0 5 ''G1,G4''
        ''s2.mzXML|apple1.mzXML|beef1.mzXML|beef2.mzXML|beef3.mzXML|pear1.mzXML'',
      example_row 2 0 1 ''G1,G4'' ''s2.mzXML|s3.mzXML|blank1.mzXML'',
      example_row 1 1 0 ''G1,G2'' ''s4.mzXML|s5.mzXML'',
      example_row 1 1 1 ''G1,G2,G4'' ''s1.mzXML|s5.mzXML|beef1.mzXML'']"

definition blank_network :: gnps_table where
  "blank_network =
     [example_row 1 0 0 ''G1'' ''s1.mzXML'',
      example_row 1 0 1 ''G1,G4'' ''s1.mzXML|blank1.mzXML'']"

definition small_network :: gnps_table where
  "small_network =
     [example_row 1 0 0 ''G1'' ''s1.mzXML'',
      example_row 1 0 0 ''G1'' ''s2.mzXML'',
      example_row 1 0 1 ''G1,G4'' ''s1.mzXML|apple1.mzXML'',
      example_row 1 0 3 ''G1,G4'' ''s2.mzXML|apple1.mzXML|beef1.mzXML|beef2.mzXML'']"

definition example_foods :: "food_record list" where
  "example_foods =
     [example_food ''apple1.mzXML'' ''apple'' ''fruit'',
      example_food ''apple2.mzXML'' ''apple'' ''fruit'',
      example_food ''pear1.mzXML'' ''pear'' ''fruit'',
      example_food ''beef1.mzXML'' ''beef'' ''meat'',
      example_food ''beef2.mzXML'' ''beef'' ''meat'',
      example_food ''beef3.mzXML'' ''beef'' ''meat'',
      example_food ''blank1.mzXML'' ''blank'' ''water'']"

definition example_world :: world where
  "example_world =
     \<lparr>tsv_files = [''network.tsv'' \<mapsto> example_network, ''blank.tsv'' \<mapsto> blank_network,
                   ''small.tsv'' \<mapsto> small_network],
      foodomics_metadata = example_foods\<rparr>"

section \<open>Properties\<close>

subsection \<open>Splitting and duplicates\<close>

text \<open>\<open>split_sep\<close> is the inverse of joining: the parts have no separator and join back to the string.\<close>

lemma split_sep_nonempty: "split_sep sep s \<noteq> []"
  by (induction s) (auto split: list.splits)

lemma split_sep_no_sep: "p \<in> set (split_sep sep s) \<Longrightarrow> sep \<notin> set p"
proof (induction s arbitrary: p)
  case Nil
  then show ?case by simp
next
  case (Cons c s)
  show ?case
  proof (cases "c = sep")
    case True
    with Cons show ?thesis by auto
  next
    case False
    obtain w ws where ws: "split_sep sep s = w # ws"
      using split_sep_nonempty [of sep s] by (cases "split_sep sep s") auto
    with Cons.prems False have "p = c # w \<or> p \<in> set ws" by simp
    then show ?thesis using Cons.IH [of w] Cons.IH [of p] ws False by auto
  qed
qed

lemma split_sep_length: "length (split_sep sep s) = Suc (count_list s sep)"
  by (induction s) (auto split: list.splits)

lemma split_sep_concat: "concat (split_sep sep s) = filter (\<lambda>c. c \<noteq> sep) s"
  by (induction s) (auto split: list.splits)


lemma join_sep_Cons: "ws \<noteq> [] \<Longrightarrow> join_sep sep (w # ws) = w @ sep # join_sep sep ws"
  by (cases ws) auto

lemma join_split_sep: "join_sep sep (split_sep sep s) = s"
proof (induction s)
  case Nil
  show ?case by simp
next
  case (Cons c s)
  obtain w ws where ws: "split_sep sep s = w # ws"
    using split_sep_nonempty [of sep s] by (cases "split_sep sep s") auto
  show ?case
  proof (cases "c = sep")
    case True
    then show ?thesis using Cons ws by (simp add: join_sep_Cons)
  next
    case False
    then show ?thesis using Cons ws by (cases ws) auto
  qed
qed

lemma set_drop_duplicates: "set (drop_duplicates xs) = set xs"
  by (induction xs rule: drop_duplicates.induct) auto

lemma distinct_drop_duplicates: "distinct (drop_duplicates xs)"
  by (induction xs rule: drop_duplicates.induct) (auto simp: set_drop_duplicates)

subsection \<open>Columns, masks and groups\<close>

lemma numeric_column_groups: "g \<in> set groups \<Longrightarrow> \<exists>c. numeric_column g = Some c"
  by (auto simp: groups_def numeric_column_def)

lemma set_map_filter_numeric:
  "set (List.map_filter numeric_column names) = {c. \<exists>g\<in>set names. numeric_column g = Some c}"
  by (induction names) (auto simp: List.map_filter_simps split: option.splits)

lemma groups_excluded_set:
  "set (groups_excluded ag sg) = set groups - (set ag \<union> set sg)"
  by (auto simp: groups_excluded_def)

lemma list_all_numeric:
  assumes "set names \<subseteq> set groups"
  shows "list_all (\<lambda>c. P (c r)) (List.map_filter numeric_column names) \<longleftrightarrow>
         (\<forall>g\<in>set names. \<exists>c. numeric_column g = Some c \<and> P (c r))"
proof
  assume l: "list_all (\<lambda>c. P (c r)) (List.map_filter numeric_column names)"
  show "\<forall>g\<in>set names. \<exists>c. numeric_column g = Some c \<and> P (c r)"
  proof
    fix g assume g: "g \<in> set names"
    then obtain c where c: "numeric_column g = Some c"
      using assms numeric_column_groups by blast
    then have "c \<in> set (List.map_filter numeric_column names)"
      using g by (auto simp: set_map_filter_numeric)
    then have "P (c r)" using l by (simp add: list_all_iff)
    then show "\<exists>c. numeric_column g = Some c \<and> P (c r)" using c by blast
  qed
next
  assume r: "\<forall>g\<in>set names. \<exists>c. numeric_column g = Some c \<and> P (c r)"
  show "list_all (\<lambda>c. P (c r)) (List.map_filter numeric_column names)"
    unfolding list_all_iff set_map_filter_numeric using r by fastforce
qed

lemma list_ex_numeric:
  "list_ex (\<lambda>c. P (c r)) (List.map_filter numeric_column names) \<longleftrightarrow>
   (\<exists>g\<in>set names. \<exists>c. numeric_column g = Some c \<and> P (c r))"
  unfolding list_ex_iff set_map_filter_numeric by blast


lemma bool_index_map: "bool_index xs (map p xs) = filter p xs"
  by (induction xs) (auto simp: bool_index_def)

lemma mask_and_map: "mask_and (map p xs) (map q xs) = map (\<lambda>x. p x \<and> q x) xs"
  by (induction xs) (auto simp: mask_and_def)

lemma select_columns_groups:
  assumes "set names \<subseteq> set groups"
  shows "select_columns names = Inr (List.map_filter numeric_column names)"
proof -
  have a: "\<not> list_ex (\<lambda>n. numeric_column n = None \<and> n \<notin> set text_columns) names"
    using assms numeric_column_groups by (fastforce simp: list_ex_iff)
  have b: "\<not> list_ex (\<lambda>n. n \<in> set text_columns) names"
    using assms by (auto simp: list_ex_iff groups_def text_columns_def)
  show ?thesis using a b by (simp add: select_columns_def)
qed

subsection \<open>Value counts and the noise filter\<close>

lemma set_value_counts:
  "set (value_counts xs) = (\<lambda>l. (l, int (count_list xs l))) ` set xs"
  by (simp add: value_counts_def set_drop_duplicates)

lemma distinct_fst_value_counts: "distinct (map fst (value_counts xs))"
proof -
  let ?ys = "map (\<lambda>l. (l, int (count_list xs l))) (drop_duplicates xs)"
  have "map fst ?ys = drop_duplicates xs" by (simp add: comp_def)
  then have d: "distinct (map fst ?ys)" by (simp add: distinct_drop_duplicates)
  then have "distinct ?ys \<and> inj_on fst (set ?ys)" by (simp only: distinct_map)
  then have "distinct (sort_key (\<lambda>p. - snd p) ?ys) \<and> inj_on fst (set (sort_key (\<lambda>p. - snd p) ?ys))"
    by simp
  then show ?thesis unfolding value_counts_def by (simp only: distinct_map)
qed

lemma value_counts_count:
  "(l, c) \<in> set (value_counts xs) \<longleftrightarrow> l \<in> set xs \<and> c = int (count_list xs l)"
  by (auto simp: set_value_counts)

lemma count_list_pos: "x \<in> set xs \<Longrightarrow> 0 < count_list xs x"
  by (induction xs) auto

lemma value_counts_pos: "(l, c) \<in> set (value_counts xs) \<Longrightarrow> 0 < c"
  by (auto simp: value_counts_count count_list_pos)

lemma map_of_value_counts:
  "map_of (value_counts xs) l = (if l \<in> set xs then Some (int (count_list xs l)) else None)"
proof (cases "l \<in> set xs")
  case True
  then have "(l, int (count_list xs l)) \<in> set (value_counts xs)"
    by (simp add: value_counts_count)
  then show ?thesis using True distinct_fst_value_counts by simp
next
  case False
  then have "l \<notin> fst ` set (value_counts xs)"
    by (auto simp: set_value_counts)
  then show ?thesis using False by (simp add: map_of_eq_None_iff)
qed

lemma cell_value_counts: "cell (value_counts xs) l = int (count_list xs l)"
  by (simp add: cell_def map_of_value_counts count_list_0_iff)

lemma value_counts_Nil_iff: "value_counts xs = [] \<longleftrightarrow> xs = []"
proof -
  have "value_counts xs = [] \<longleftrightarrow> set (value_counts xs) = {}" by simp
  also have "\<dots> \<longleftrightarrow> xs = []" by (simp add: set_value_counts)
  finally show ?thesis .
qed

lemma count_list_filter:
  "count_list (filter P xs) l = (if P l then count_list xs l else 0)"
  by (induction xs) auto

lemma water_count_eq: "length (filter (\<lambda>l. l = w) xs) = count_list xs w"
  by (induction xs) auto

lemma noise_filter_entry:
  assumes "(l, c) \<in> set (noise_filter level selected)"
  shows "c = int (count_list selected l) \<and>
         (if 0 < level then int (count_list selected ''water'') else 0) < c"
proof -
  define wc where "wc = (if level > 0 then int (length (filter (\<lambda>l. l = ''water'') selected)) else 0)"
  define valid where "valid = map fst (filter (\<lambda>p. snd p > wc) (value_counts selected))"
  have nf: "noise_filter level selected = value_counts (filter (\<lambda>l. l \<in> set valid) selected)"
    by (simp add: noise_filter_def Let_def wc_def valid_def)
  from assms have l: "l \<in> set (filter (\<lambda>l. l \<in> set valid) selected)"
    and c: "c = int (count_list (filter (\<lambda>l. l \<in> set valid) selected) l)"
    by (simp_all add: nf value_counts_count)
  from l have lv: "l \<in> set valid" by simp
  then have c': "c = int (count_list selected l)" using c by (simp add: count_list_filter)
  from lv obtain n where "(l, n) \<in> set (value_counts selected)" "wc < n"
    by (auto simp: valid_def)
  then have "wc < int (count_list selected l)" by (simp add: value_counts_count)
  moreover have "wc = (if 0 < level then int (count_list selected ''water'') else 0)"
    by (simp add: wc_def water_count_eq)
  ultimately show ?thesis using c' by simp
qed

lemma noise_filter_level0:
  assumes "\<not> 0 < level"
  shows "noise_filter level selected = value_counts selected"
proof -
  have "filter (\<lambda>p. 0 < snd p) (value_counts selected) = value_counts selected"
    using value_counts_pos [of _ _ selected] by (auto simp: filter_id_conv)
  then have v: "map fst (filter (\<lambda>p. 0 < snd p) (value_counts selected)) = map fst (value_counts selected)"
    by simp
  have k: "set (map fst (value_counts selected)) = set selected"
    by (auto simp: set_value_counts image_image)
  have f: "filter (\<lambda>l. l \<in> set (map fst (value_counts selected))) selected = selected"
    unfolding k by simp
  have "noise_filter level selected =
        value_counts (filter (\<lambda>l. l \<in> set (map fst (filter (\<lambda>p. 0 < snd p) (value_counts selected)))) selected)"
    by (simp only: noise_filter_def Let_def assms if_False)
  then show ?thesis by (simp only: v f)
qed

lemma sublist_single: "sublist [c] ys \<longleftrightarrow> c \<in> set ys"
  by (induction ys) (auto simp: sublist_Cons_right)

lemma count_list_map_filter:
  "count_list (List.map_filter g xs) l = length (filter (\<lambda>x. g x = Some l) xs)"
  by (induction xs) (auto simp: List.map_filter_simps split: option.splits)

lemma set_map_filter: "set (List.map_filter g xs) = {y. \<exists>x\<in>set xs. g x = Some y}"
  by (induction xs) (auto simp: List.map_filter_simps split: option.splits)

lemma noise_filter_is_value_counts: "\<exists>xs. noise_filter level selected = value_counts xs"
  unfolding noise_filter_def Let_def by (rule exI) (rule refl)

lemma get_file_food_counts_pos:
  assumes "get_file_food_counts gnps_network sample_types all_groups some_groups filename level = Inr v"
    and "(l, c) \<in> set v"
  shows "0 < c"
proof -
  from assms(1) obtain selected where "v = noise_filter level selected"
    by (auto simp: get_file_food_counts_def split: sum.splits)
  then obtain xs where "v = value_counts xs"
    using noise_filter_is_value_counts by metis
  then show ?thesis
    using assms(2) value_counts_pos [of l c xs] by simp
qed

lemma get_file_food_counts_nonempty:
  assumes "get_file_food_counts gnps_network sample_types all_groups some_groups filename level = Inr v"
  shows "v \<noteq> [] \<longleftrightarrow> (\<exists>(l, c)\<in>set v. c \<noteq> 0)"
proof
  assume "v \<noteq> []"
  then obtain p where p: "p \<in> set v" by (cases v) auto
  obtain l c where lc: "p = (l, c)" by (cases p)
  have "0 < c" using get_file_food_counts_pos [OF assms] p lc by blast
  then have "case p of (l, c) \<Rightarrow> c \<noteq> 0" using lc by simp
  with p show "\<exists>(l, c)\<in>set v. c \<noteq> 0" by (rule bexI [rotated])
next
  assume "\<exists>(l, c)\<in>set v. c \<noteq> 0"
  then show "v \<noteq> []" by auto
qed

subsection \<open>The loop over the files and the matrix\<close>

text \<open>The matrix is built from the entries of the tables, whatever their order.\<close>

lemma cell_entries:
  assumes "distinct (map fst v)" and "distinct (map fst v')" and "set v = set v'"
  shows "cell v = cell v'"
proof -
  have "map_of v = map_of v'"
    using assms by (simp add: map_of_inject_set)
  then show ?thesis by (simp add: cell_def fun_eq_iff)
qed

lemma concat_counts_entries:
  assumes "list_all2 (\<lambda>v v'. set v = set v' \<and> distinct (map fst v) \<and> distinct (map fst v')) vs vs'"
  shows "concat_counts vs = concat_counts vs'"
proof -
  have e: "vs = [] \<longleftrightarrow> vs' = []"
    using assms by (cases vs; cases vs') simp_all
  have l: "set (concat (map (map fst) vs)) = set (concat (map (map fst) vs'))"
    using assms by (induction rule: list_all2_induct) simp_all
  have "sort (remdups (concat (map (map fst) vs))) = sort (remdups (concat (map (map fst) vs')))"
    using l by (simp only: sorted_list_of_set_sort_remdups [symmetric])
  moreover have "map (\<lambda>v. map (cell v) cols) vs = map (\<lambda>v. map (cell v) cols) vs'" for cols
    using assms
  proof (induction rule: list_all2_induct)
    case Nil
    show ?case by simp
  next
    case (Cons v vs v' vs')
    from Cons.hyps(1) have "cell v = cell v'" by (intro cell_entries) simp_all
    with Cons.IH show ?case by simp
  qed
  ultimately show ?thesis
    using e by (simp add: concat_counts_def Let_def)
qed

lemma file_loop_Inr:
  assumes "file_loop gnps_network sample_types all_groups some_groups level fs (fc, fns) = Inr (fc', fns')"
  shows "\<exists>vs. map (\<lambda>f. get_file_food_counts gnps_network sample_types all_groups some_groups (PyList [f]) level) fs
               = map Inr vs \<and>
              fc' = fc @ map snd (filter (\<lambda>(f, v). v \<noteq> []) (zip fs vs)) \<and>
              fns' = fns @ map fst (filter (\<lambda>(f, v). v \<noteq> []) (zip fs vs))"
  using assms
proof (induction fs arbitrary: fc fns)
  case Nil
  then show ?case by simp
next
  case (Cons f fs)
  from Cons.prems obtain v where
    v: "get_file_food_counts gnps_network sample_types all_groups some_groups (PyList [f]) level = Inr v"
    by (auto split: sum.splits)
  show ?case
  proof (cases "v = []")
    case True
    with Cons.prems v have
      "file_loop gnps_network sample_types all_groups some_groups level fs (fc, fns) = Inr (fc', fns')"
      by simp
    from Cons.IH [OF this] obtain vs where
      vs: "map (\<lambda>f. get_file_food_counts gnps_network sample_types all_groups some_groups (PyList [f]) level) fs
               = map Inr vs"
        "fc' = fc @ map snd (filter (\<lambda>(f, v). v \<noteq> []) (zip fs vs))"
        "fns' = fns @ map fst (filter (\<lambda>(f, v). v \<noteq> []) (zip fs vs))"
      by blast
    show ?thesis
      by (rule exI [of _ "v # vs"]) (simp add: v vs True)
  next
    case False
    with Cons.prems v have
      "file_loop gnps_network sample_types all_groups some_groups level fs (fc @ [v], fns @ [f]) = Inr (fc', fns')"
      by simp
    from Cons.IH [OF this] obtain vs where
      vs: "map (\<lambda>f. get_file_food_counts gnps_network sample_types all_groups some_groups (PyList [f]) level) fs
               = map Inr vs"
        "fc' = (fc @ [v]) @ map snd (filter (\<lambda>(f, v). v \<noteq> []) (zip fs vs))"
        "fns' = (fns @ [f]) @ map fst (filter (\<lambda>(f, v). v \<noteq> []) (zip fs vs))"
      by blast
    show ?thesis
      by (rule exI [of _ "v # vs"]) (simp add: v vs False)
  qed
qed

lemma read_csv_eq:
  "read_csv path w =
     (case tsv_files w path of None \<Rightarrow> Inl FileNotFoundError | Some t \<Rightarrow> Inr t, w)"
  by (simp add: read_csv_def split: option.splits)

lemma get_sample_types_eq:
  "get_sample_types simple_complex_sel w = (fst (get_sample_types simple_complex_sel w), w)"
  by (simp add: get_sample_types_def load_food_metadata_def Let_def)

lemma get_dataset_food_counts_eq:
  "get_dataset_food_counts gnps_network sample_types all_groups some_groups level w =
     (case tsv_files w gnps_network of
        None \<Rightarrow> Inl FileNotFoundError
      | Some gnps_df \<Rightarrow>
          (case file_loop gnps_df (fst (get_sample_types sample_types w)) all_groups some_groups level
                  (map snd (get_sample_metadata gnps_df all_groups)) ([], []) of
             Inl e \<Rightarrow> Inl e
           | Inr (food_counts, filenames) \<Rightarrow>
               (case concat_counts food_counts of
                  Inl e \<Rightarrow> Inl e
                | Inr (cols, vals) \<Rightarrow>
                    Inr \<lparr>mat_index = filenames, mat_columns = cols, mat_values = vals\<rparr>)), w)"
proof (cases "tsv_files w gnps_network")
  case None
  then show ?thesis
    by (simp add: get_dataset_food_counts_def read_csv_eq)
next
  case (Some gnps_df)
  obtain st where st: "get_sample_types sample_types w = (st, w)"
    using get_sample_types_eq by blast
  then have st': "fst (get_sample_types sample_types w) = st" by simp
  show ?thesis
    unfolding get_dataset_food_counts_def read_csv_eq Some st'
    by (simp add: st split: sum.splits prod.splits)
qed

lemma get_dataset_food_counts_Inr:
  assumes "fst (get_dataset_food_counts gnps_network sample_types all_groups some_groups level w) = Inr m"
  shows "\<exists>gnps_df fc fns.
           tsv_files w gnps_network = Some gnps_df \<and>
           file_loop gnps_df (fst (get_sample_types sample_types w)) all_groups some_groups level
             (map snd (get_sample_metadata gnps_df all_groups)) ([], []) = Inr (fc, fns) \<and>
           fc \<noteq> [] \<and>
           mat_index m = fns \<and>
           mat_columns m = sort (remdups (concat (map (map fst) fc))) \<and>
           mat_values m = map (\<lambda>v. map (cell v) (mat_columns m)) fc"
proof -
  from assms obtain gnps_df where df: "tsv_files w gnps_network = Some gnps_df"
    by (cases "tsv_files w gnps_network") (simp_all add: get_dataset_food_counts_eq)
  let ?loop = "file_loop gnps_df (fst (get_sample_types sample_types w)) all_groups some_groups level
                  (map snd (get_sample_metadata gnps_df all_groups)) ([], [])"
  from assms df obtain fc fns where loop: "?loop = Inr (fc, fns)"
    by (cases ?loop) (auto simp: get_dataset_food_counts_eq)
  from assms df loop have c: "concat_counts fc = Inr (mat_columns m, mat_values m)" and i: "mat_index m = fns"
    by (cases "concat_counts fc"; auto simp: get_dataset_food_counts_eq)+
  from c have "fc \<noteq> []" and "mat_columns m = sort (remdups (concat (map (map fst) fc)))"
    and "mat_values m = map (\<lambda>v. map (cell v) (mat_columns m)) fc"
    by (auto simp: concat_counts_def Let_def split: if_splits)
  with df loop i show ?thesis by blast
qed

lemma set_labels_of_pairs:
  "set (concat (map (map fst) (map snd ps))) = (\<Union>(f, v)\<in>set ps. fst ` set v)"
  by (induction ps) auto

lemma get_dataset_food_counts_world:
  "snd (get_dataset_food_counts gnps_network sample_types all_groups some_groups level w) = w"
  by (simp add: get_dataset_food_counts_eq)

subsection \<open>The loop over the levels and the long table\<close>

lemma level_loop_world:
  "snd (level_loop gnps_network sample_types all_groups some_groups lvls all_data w) = w"
proof (induction lvls arbitrary: all_data)
  case Nil
  show ?case by simp
next
  case (Cons lvl lvls)
  show ?case
  proof (cases "fst (get_dataset_food_counts gnps_network sample_types all_groups some_groups lvl w)")
    case (Inl e)
    then show ?thesis by (simp add: get_dataset_food_counts_eq)
  next
    case (Inr m)
    then show ?thesis
      using Cons.IH by (cases "melt m") (simp_all add: get_dataset_food_counts_eq)
  qed
qed

lemma level_loop_Inr:
  assumes "fst (level_loop gnps_network sample_types all_groups some_groups lvls all_data w) = Inr all_data'"
  shows "\<exists>ms. list_all2 (\<lambda>lvl m.
                  fst (get_dataset_food_counts gnps_network sample_types all_groups some_groups lvl w) = Inr m \<and>
                  melt m = Inr (melt_rows m)) lvls ms \<and>
              all_data' = all_data @ map (\<lambda>(lvl, m). map (\<lambda>(f, c, n). (f, c, n, lvl)) (melt_rows m)) (zip lvls ms)"
  using assms
proof (induction lvls arbitrary: all_data)
  case Nil
  then show ?case by simp
next
  case (Cons lvl lvls)
  let ?r = "fst (get_dataset_food_counts gnps_network sample_types all_groups some_groups lvl w)"
  from Cons.prems obtain m where m: "?r = Inr m"
    by (cases ?r) (simp_all add: get_dataset_food_counts_eq)
  from Cons.prems m obtain long where l: "melt m = Inr long"
    by (cases "melt m") (simp_all add: get_dataset_food_counts_eq)
  then have l': "long = melt_rows m"
    by (auto simp: melt_def split: if_splits)
  from Cons.prems m l have
    "fst (level_loop gnps_network sample_types all_groups some_groups lvls
            (all_data @ [map (\<lambda>(f, c, n). (f, c, n, lvl)) long]) w) = Inr all_data'"
    by (simp add: get_dataset_food_counts_eq)
  from Cons.IH [OF this] obtain ms where
    ms: "list_all2 (\<lambda>lvl m.
                  fst (get_dataset_food_counts gnps_network sample_types all_groups some_groups lvl w) = Inr m \<and>
                  melt m = Inr (melt_rows m)) lvls ms"
    and a: "all_data' = (all_data @ [map (\<lambda>(f, c, n). (f, c, n, lvl)) long]) @
              map (\<lambda>(lvl, m). map (\<lambda>(f, c, n). (f, c, n, lvl)) (melt_rows m)) (zip lvls ms)"
    by blast
  show ?case
    by (rule exI [of _ "m # ms"]) (use m l l' ms a in simp)
qed

lemma level_loop_eq:
  "level_loop gnps_network sample_types all_groups some_groups lvls all_data w =
     (fst (level_loop gnps_network sample_types all_groups some_groups lvls all_data w), w)"
  using level_loop_world [of gnps_network sample_types all_groups some_groups lvls all_data w]
  by (cases "level_loop gnps_network sample_types all_groups some_groups lvls all_data w") simp

lemma get_dataset_food_counts_all_Inr:
  assumes "fst (get_dataset_food_counts_all gnps_network sample_types all_groups some_groups levels w) = Inr long"
  shows "\<exists>gnps_df ms.
           tsv_files w gnps_network = Some gnps_df \<and>
           distinct (map snd (get_sample_metadata gnps_df all_groups)) \<and>
           list_all2 (\<lambda>lvl m.
               fst (get_dataset_food_counts gnps_network sample_types all_groups some_groups lvl w) = Inr m \<and>
               melt m = Inr (melt_rows m)) [0..levels] ms \<and>
           long = map (\<lambda>(f, c, n, l).
                         \<lparr>row_filename = f, row_food_type = c, row_count = n, row_level = l,
                          row_group = map_of (map (\<lambda>(g, fn). (fn, g)) (get_sample_metadata gnps_df all_groups)) f\<rparr>)
                      (concat (map (\<lambda>(lvl, m). map (\<lambda>(f, c, n). (f, c, n, lvl)) (melt_rows m))
                                   (zip [0..levels] ms)))"
proof -
  let ?A = "get_dataset_food_counts_all gnps_network sample_types all_groups some_groups levels w"
  from assms obtain gnps_df where df: "tsv_files w gnps_network = Some gnps_df"
    by (cases "tsv_files w gnps_network") (simp_all add: get_dataset_food_counts_all_def read_csv_eq)
  let ?L = "level_loop gnps_network sample_types all_groups some_groups [0..levels] [] w"
  have A: "?A = (case fst ?L of
                   Inl e \<Rightarrow> (Inl e, w)
                 | Inr all_data \<Rightarrow>
                     (if all_data = [] then (Inl ValueError, w)
                      else if \<not> distinct (map snd (get_sample_metadata gnps_df all_groups))
                           then (Inl InvalidIndexError, w)
                      else (Inr (map (\<lambda>(f, c, n, l).
                             \<lparr>row_filename = f, row_food_type = c, row_count = n, row_level = l,
                              row_group = map_of (map (\<lambda>(g, fn). (fn, g)) (get_sample_metadata gnps_df all_groups)) f\<rparr>)
                          (concat all_data)), w)))"
    unfolding get_dataset_food_counts_all_def read_csv_eq df Let_def
    by (subst level_loop_eq) (simp split: sum.splits)
  from assms A obtain all_data where ad: "fst ?L = Inr all_data"
    by (cases "fst ?L") simp_all
  from assms A ad have d: "distinct (map snd (get_sample_metadata gnps_df all_groups))"
    by (simp split: if_splits)
  from assms A ad have l: "long = map (\<lambda>(f, c, n, l).
                             \<lparr>row_filename = f, row_food_type = c, row_count = n, row_level = l,
                              row_group = map_of (map (\<lambda>(g, fn). (fn, g)) (get_sample_metadata gnps_df all_groups)) f\<rparr>)
                          (concat all_data)"
    by (simp split: if_splits)
  from level_loop_Inr [OF ad] obtain ms where
    ms: "list_all2 (\<lambda>lvl m.
               fst (get_dataset_food_counts gnps_network sample_types all_groups some_groups lvl w) = Inr m \<and>
               melt m = Inr (melt_rows m)) [0..levels] ms"
    and a: "all_data = map (\<lambda>(lvl, m). map (\<lambda>(f, c, n). (f, c, n, lvl)) (melt_rows m)) (zip [0..levels] ms)"
    by auto
  show ?thesis using df d ms l a by blast
qed

lemma zip_map_same: "zip xs (map f xs) = map (\<lambda>x. (x, f x)) xs"
  by (induction xs) auto

lemma get_dataset_food_counts_shape:
  assumes "fst (get_dataset_food_counts gnps_network sample_types all_groups some_groups level w) = Inr m"
    and "tsv_files w gnps_network = Some gnps_df"
  shows "\<exists>vec. mat_index m = filter (\<lambda>f. vec f \<noteq> []) (map snd (get_sample_metadata gnps_df all_groups)) \<and>
               mat_index m \<noteq> [] \<and> mat_columns m \<noteq> [] \<and> distinct (mat_columns m) \<and>
               mat_values m = map (\<lambda>f. map (cell (vec f)) (mat_columns m)) (mat_index m)"
proof -
  define files where "files = map snd (get_sample_metadata gnps_df all_groups)"
  let ?files = files
  let ?G = "\<lambda>f. get_file_food_counts gnps_df (fst (get_sample_types sample_types w))
                       all_groups some_groups (PyList [f]) level"
  define vec where "vec f = (case ?G f of Inl e \<Rightarrow> [] | Inr v \<Rightarrow> v)" for f
  from get_dataset_food_counts_Inr [OF assms(1)] assms(2) obtain fc fns where
    loop: "file_loop gnps_df (fst (get_sample_types sample_types w)) all_groups some_groups level
             ?files ([], []) = Inr (fc, fns)"
    and ne: "fc \<noteq> []"
    and idx: "mat_index m = fns"
    and cols: "mat_columns m = sort (remdups (concat (map (map fst) fc)))"
    and vals: "mat_values m = map (\<lambda>v. map (cell v) (mat_columns m)) fc"
    unfolding files_def by auto
  from file_loop_Inr [OF loop] obtain vs where
    vs: "map ?G ?files = map Inr vs"
    and fc: "fc = map snd (filter (\<lambda>(f, v). v \<noteq> []) (zip ?files vs))"
    and fns: "fns = map fst (filter (\<lambda>(f, v). v \<noteq> []) (zip ?files vs))"
    by auto
  have len: "length vs = length ?files"
    using arg_cong [OF vs, of length] by simp
  have "vs = map vec ?files"
  proof (rule nth_equalityI)
    show "length vs = length (map vec ?files)" using len by simp
  next
    fix i assume i: "i < length vs"
    have "map ?G ?files ! i = map Inr vs ! i" using vs by simp
    then have "?G (?files ! i) = Inr (vs ! i)" using i len by simp
    then show "vs ! i = map vec ?files ! i" using i len by (simp add: vec_def)
  qed
  then have kept: "filter (\<lambda>(f, v). v \<noteq> []) (zip ?files vs) =
                   map (\<lambda>f. (f, vec f)) (filter (\<lambda>f. vec f \<noteq> []) ?files)"
    by (simp add: zip_map_same filter_map comp_def)
  have fns': "fns = filter (\<lambda>f. vec f \<noteq> []) ?files"
    unfolding fns kept by (simp add: comp_def)
  have fc': "fc = map vec fns"
    unfolding fc kept fns' by (simp add: comp_def)
  have 1: "mat_index m = filter (\<lambda>f. vec f \<noteq> []) ?files"
    using idx fns' by simp
  have 2: "mat_index m \<noteq> []"
    using ne fc' idx by auto
  have 5: "mat_values m = map (\<lambda>f. map (cell (vec f)) (mat_columns m)) (mat_index m)"
    unfolding vals fc' idx by (simp add: comp_def)
  have 4: "distinct (mat_columns m)"
    unfolding cols by simp
  from 2 obtain f where f: "f \<in> set (mat_index m)" by (cases "mat_index m") auto
  then have "vec f \<noteq> []" using 1 by auto
  then obtain p where "p \<in> set (vec f)" by (cases "vec f") auto
  then have "fst p \<in> set (concat (map (map fst) fc))"
    using f unfolding fc' idx by auto
  then have "fst p \<in> set (mat_columns m)"
    unfolding cols by simp
  then have 3: "mat_columns m \<noteq> []" by auto
  show ?thesis using 1 2 3 4 5 unfolding files_def by blast
qed

lemma melt_rows_product:
  assumes "mat_values m = map (\<lambda>f. map (val f) (mat_columns m)) (mat_index m)"
  shows "melt_rows m = concat (map (\<lambda>c. map (\<lambda>f. (f, c, val f c)) (mat_index m)) (mat_columns m))"
proof -
  let ?cols = "mat_columns m" and ?idx = "mat_index m"
  have "map (\<lambda>(j, c). map (\<lambda>(f, vals). (f, c, vals ! j)) (zip ?idx (mat_values m))) (enumerate 0 ?cols) =
        map (\<lambda>c. map (\<lambda>f. (f, c, val f c)) ?idx) ?cols"
  proof (rule nth_equalityI)
    show "length (map (\<lambda>(j, c). map (\<lambda>(f, vals). (f, c, vals ! j)) (zip ?idx (mat_values m))) (enumerate 0 ?cols)) =
          length (map (\<lambda>c. map (\<lambda>f. (f, c, val f c)) ?idx) ?cols)"
      by simp
  next
    fix i
    assume "i < length (map (\<lambda>(j, c). map (\<lambda>(f, vals). (f, c, vals ! j)) (zip ?idx (mat_values m))) (enumerate 0 ?cols))"
    then have i: "i < length ?cols" by simp
    have "map (\<lambda>(f, vals). (f, ?cols ! i, vals ! i)) (zip ?idx (mat_values m)) =
          map (\<lambda>f. (f, ?cols ! i, val f (?cols ! i))) ?idx"
      unfolding assms zip_map_same using i by simp
    then show "map (\<lambda>(j, c). map (\<lambda>(f, vals). (f, c, vals ! j)) (zip ?idx (mat_values m))) (enumerate 0 ?cols) ! i =
          map (\<lambda>c. map (\<lambda>f. (f, c, val f c)) ?idx) ?cols ! i"
      using i by (simp add: nth_enumerate_eq)
  qed
  then show ?thesis by (simp add: melt_rows_def)
qed

lemma key_of_rows:
  assumes "\<forall>p\<in>set ps. \<forall>x\<in>set (F p). k x = fst p"
    and "x \<in> set (concat (map F ps))"
  shows "k x \<in> fst ` set ps"
proof -
  from assms(2) obtain p where p: "p \<in> set ps" and x: "x \<in> set (F p)" by auto
  with assms(1) have "k x = fst p" by blast
  with p show ?thesis by (metis image_eqI)
qed

lemma filter_key_rows:
  assumes "\<forall>p\<in>set ps. \<forall>x\<in>set (F p). k x = fst p"
    and "distinct (map fst ps)" and "p \<in> set ps"
  shows "filter (\<lambda>x. k x = fst p) (concat (map F ps)) = F p"
  using assms
proof (induction ps)
  case Nil
  then show ?case by simp
next
  case (Cons q ps)
  from Cons.prems(1) have key: "\<forall>p\<in>set ps. \<forall>x\<in>set (F p). k x = fst p"
    and keyq: "\<forall>x\<in>set (F q). k x = fst q" by auto
  show ?case
  proof (cases "q = p")
    case True
    have "fst p \<notin> fst ` set ps" using Cons.prems(2) True by auto
    then have "\<forall>x\<in>set (concat (map F ps)). k x \<noteq> fst p"
      using key_of_rows [OF key] by metis
    then have "filter (\<lambda>x. k x = fst p) (concat (map F ps)) = []"
      by (simp only: filter_empty_conv)
    moreover have "filter (\<lambda>x. k x = fst p) (F q) = F q"
      using keyq True by (simp add: filter_id_conv)
    ultimately show ?thesis using True by simp
  next
    case False
    with Cons.prems have p: "p \<in> set ps" and d: "distinct (map fst ps)" by auto
    have "fst q \<noteq> fst p" using Cons.prems(2) p by force
    then have "filter (\<lambda>x. k x = fst p) (F q) = []"
      using keyq by (simp add: filter_empty_conv)
    then show ?thesis using Cons.IH [OF key d p] by simp
  qed
qed

lemma sorted_key_rows:
  fixes k :: "'a \<Rightarrow> int"
  assumes "\<forall>p\<in>set ps. \<forall>x\<in>set (F p). k x = fst p"
    and "sorted (map fst ps)"
  shows "sorted (map k (concat (map F ps)))"
  using assms
proof (induction ps)
  case Nil
  then show ?case by simp
next
  case (Cons q ps)
  from Cons.prems(1) have key: "\<forall>p\<in>set ps. \<forall>x\<in>set (F p). k x = fst p"
    and keyq: "\<forall>x\<in>set (F q). k x = fst q" by auto
  from Cons.prems(2) have s: "sorted (map fst ps)" and le: "\<forall>l\<in>fst ` set ps. fst q \<le> l"
    by auto
  have first: "map k (F q) = replicate (length (F q)) (fst q)"
    using keyq by (simp add: map_replicate_const [symmetric])
  have rest: "\<forall>y\<in>set (map k (concat (map F ps))). fst q \<le> y"
  proof
    fix y assume "y \<in> set (map k (concat (map F ps)))"
    then obtain x where "x \<in> set (concat (map F ps))" "y = k x" by auto
    then have "y \<in> fst ` set ps" using key_of_rows [OF key] by metis
    then show "fst q \<le> y" using le by blast
  qed
  have "sorted (map k (F q) @ map k (concat (map F ps)))"
    unfolding sorted_append first using Cons.IH [OF key s] rest by auto
  then show ?case by simp
qed

lemma list_all2_zip:
  assumes "list_all2 P xs ys"
  shows "map fst (zip xs ys) = xs"
    and "(x, y) \<in> set (zip xs ys) \<Longrightarrow> P x y"
    and "x \<in> set xs \<Longrightarrow> \<exists>y. (x, y) \<in> set (zip xs ys)"
proof -
  from assms have len: "length xs = length ys" by (rule list_all2_lengthD)
  then show "map fst (zip xs ys) = xs" by simp
  show "(x, y) \<in> set (zip xs ys) \<Longrightarrow> P x y"
    using assms by (auto simp: list_all2_iff)
  show "\<exists>y. (x, y) \<in> set (zip xs ys)" if "x \<in> set xs"
  proof -
    from that obtain i where i: "i < length xs" "xs ! i = x"
      by (auto simp: in_set_conv_nth)
    then have "(x, ys ! i) \<in> set (zip xs ys)"
      using len by (auto simp: in_set_zip)
    then show ?thesis ..
  qed
qed

lemma long_table_blocks:
  assumes "fst (get_dataset_food_counts_all gnps_network sample_types all_groups some_groups levels w) = Inr long"
  shows "\<exists>gnps_df ms grp.
           tsv_files w gnps_network = Some gnps_df \<and>
           distinct (map snd (get_sample_metadata gnps_df all_groups)) \<and>
           list_all2 (\<lambda>lvl m.
               fst (get_dataset_food_counts gnps_network sample_types all_groups some_groups lvl w) = Inr m \<and>
               melt m = Inr (melt_rows m)) [0..levels] ms \<and>
           long = concat (map (\<lambda>p. map (\<lambda>t. \<lparr>row_filename = fst t, row_food_type = fst (snd t),
                                               row_count = snd (snd t), row_level = fst p,
                                               row_group = grp (fst t)\<rparr>)
                                        (melt_rows (snd p)))
                              (zip [0..levels] ms))"
proof -
  from get_dataset_food_counts_all_Inr [OF assms] obtain gnps_df ms where
    df: "tsv_files w gnps_network = Some gnps_df"
    and d: "distinct (map snd (get_sample_metadata gnps_df all_groups))"
    and ms: "list_all2 (\<lambda>lvl m.
               fst (get_dataset_food_counts gnps_network sample_types all_groups some_groups lvl w) = Inr m \<and>
               melt m = Inr (melt_rows m)) [0..levels] ms"
    and l: "long = map (\<lambda>(f, c, n, l).
                         \<lparr>row_filename = f, row_food_type = c, row_count = n, row_level = l,
                          row_group = map_of (map (\<lambda>(g, fn). (fn, g)) (get_sample_metadata gnps_df all_groups)) f\<rparr>)
                      (concat (map (\<lambda>(lvl, m). map (\<lambda>(f, c, n). (f, c, n, lvl)) (melt_rows m))
                                   (zip [0..levels] ms)))"
    by blast
  let ?grp = "map_of (map (\<lambda>(g, fn). (fn, g)) (get_sample_metadata gnps_df all_groups))"
  have "long = concat (map (\<lambda>p. map (\<lambda>t. \<lparr>row_filename = fst t, row_food_type = fst (snd t),
                                               row_count = snd (snd t), row_level = fst p,
                                               row_group = ?grp (fst t)\<rparr>)
                                        (melt_rows (snd p)))
                              (zip [0..levels] ms))"
    unfolding l by (simp add: map_concat comp_def case_prod_beta)
  with df d ms show ?thesis by blast
qed

lemma long_table_sorted:
  assumes "fst (get_dataset_food_counts_all gnps_network sample_types all_groups some_groups levels w) = Inr long"
  shows "sorted (map row_level long) \<and> set (map row_level long) \<subseteq> {0..levels}"
proof -
  from long_table_blocks [OF assms] obtain ms grp where
    ms: "list_all2 (\<lambda>lvl m.
               fst (get_dataset_food_counts gnps_network sample_types all_groups some_groups lvl w) = Inr m \<and>
               melt m = Inr (melt_rows m)) [0..levels] ms"
    and l: "long = concat (map (\<lambda>p. map (\<lambda>t. \<lparr>row_filename = fst t, row_food_type = fst (snd t),
                                               row_count = snd (snd t), row_level = fst p,
                                               row_group = grp (fst t)\<rparr>)
                                        (melt_rows (snd p)))
                              (zip [0..levels] ms))"
    by blast
  define F where "F p = map (\<lambda>t. \<lparr>row_filename = fst t, row_food_type = fst (snd t),
                                               row_count = snd (snd t), row_level = fst p,
                                               row_group = grp (fst t)\<rparr>)
                                        (melt_rows (snd p))" for p :: "int \<times> count_matrix"
  define ps where "ps = zip [0..levels] ms"
  have long: "long = concat (map F ps)" unfolding l F_def ps_def ..
  have key: "\<forall>p\<in>set ps. \<forall>x\<in>set (F p). row_level x = fst p"
    by (auto simp: F_def)
  have fst_ps: "map fst ps = [0..levels]"
    unfolding ps_def using list_all2_zip(1) [OF ms] .
  have 1: "sorted (map row_level long)"
    unfolding long by (rule sorted_key_rows [OF key]) (simp add: fst_ps)
  have 2: "set (map row_level long) \<subseteq> {0..levels}"
  proof
    fix y assume "y \<in> set (map row_level long)"
    then obtain x where "x \<in> set (concat (map F ps))" "y = row_level x"
      unfolding long by auto
    then have "y \<in> fst ` set ps" using key_of_rows [OF key] by metis
    also have "fst ` set ps = set (map fst ps)" by simp
    also have "\<dots> = {0..levels}" unfolding fst_ps by simp
    finally show "y \<in> {0..levels}" .
  qed
  show ?thesis using 1 2 ..
qed

lemma long_table_level:
  assumes "fst (get_dataset_food_counts_all gnps_network sample_types all_groups some_groups levels w) = Inr long"
    and "0 \<le> lvl" and "lvl \<le> levels"
  shows "\<exists>m val grp.
           fst (get_dataset_food_counts gnps_network sample_types all_groups some_groups lvl w) = Inr m \<and>
           distinct (mat_index m) \<and> mat_index m \<noteq> [] \<and>
           distinct (mat_columns m) \<and> mat_columns m \<noteq> [] \<and>
           mat_values m = map (\<lambda>f. map (val f) (mat_columns m)) (mat_index m) \<and>
           filter (\<lambda>r. row_level r = lvl) long =
             concat (map (\<lambda>c. map (\<lambda>f. \<lparr>row_filename = f, row_food_type = c, row_count = val f c,
                                           row_level = lvl, row_group = grp f\<rparr>)
                                    (mat_index m))
                         (mat_columns m))"
proof -
  from long_table_blocks [OF assms(1)] obtain gnps_df ms grp where
    df: "tsv_files w gnps_network = Some gnps_df"
    and d: "distinct (map snd (get_sample_metadata gnps_df all_groups))"
    and ms: "list_all2 (\<lambda>lvl m.
               fst (get_dataset_food_counts gnps_network sample_types all_groups some_groups lvl w) = Inr m \<and>
               melt m = Inr (melt_rows m)) [0..levels] ms"
    and l: "long = concat (map (\<lambda>p. map (\<lambda>t. \<lparr>row_filename = fst t, row_food_type = fst (snd t),
                                               row_count = snd (snd t), row_level = fst p,
                                               row_group = grp (fst t)\<rparr>)
                                        (melt_rows (snd p)))
                              (zip [0..levels] ms))"
    by blast
  define F where "F p = map (\<lambda>t. \<lparr>row_filename = fst t, row_food_type = fst (snd t),
                                               row_count = snd (snd t), row_level = fst p,
                                               row_group = grp (fst t)\<rparr>)
                                        (melt_rows (snd p))" for p :: "int \<times> count_matrix"
  define ps where "ps = zip [0..levels] ms"
  have long: "long = concat (map F ps)" unfolding l F_def ps_def ..
  have key: "\<forall>p\<in>set ps. \<forall>x\<in>set (F p). row_level x = fst p"
    by (auto simp: F_def)
  have fst_ps: "map fst ps = [0..levels]"
    unfolding ps_def using list_all2_zip(1) [OF ms] .
  have "lvl \<in> set [0..levels]" using assms(2,3) by simp
  from list_all2_zip(3) [OF ms this] obtain m where m: "(lvl, m) \<in> set ps"
    unfolding ps_def by blast
  from list_all2_zip(2) [OF ms] m have
    r: "fst (get_dataset_food_counts gnps_network sample_types all_groups some_groups lvl w) = Inr m"
    unfolding ps_def by blast
  from get_dataset_food_counts_shape [OF r df] obtain vec where
    idx: "mat_index m = filter (\<lambda>f. vec f \<noteq> []) (map snd (get_sample_metadata gnps_df all_groups))"
    and ne: "mat_index m \<noteq> []" "mat_columns m \<noteq> []" and dc: "distinct (mat_columns m)"
    and vals: "mat_values m = map (\<lambda>f. map (cell (vec f)) (mat_columns m)) (mat_index m)"
    by blast
  have di: "distinct (mat_index m)" unfolding idx using d by (rule distinct_filter)
  have "filter (\<lambda>r. row_level r = fst (lvl, m)) (concat (map F ps)) = F (lvl, m)"
    by (rule filter_key_rows [OF key _ m]) (simp add: fst_ps)
  then have "filter (\<lambda>r. row_level r = lvl) long = F (lvl, m)"
    unfolding long by simp
  also have "\<dots> = concat (map (\<lambda>c. map (\<lambda>f. \<lparr>row_filename = f, row_food_type = c,
                                           row_count = cell (vec f) c,
                                           row_level = lvl, row_group = grp f\<rparr>)
                                    (mat_index m))
                         (mat_columns m))"
    unfolding F_def by (simp add: melt_rows_product [OF vals] map_concat comp_def)
  finally have f: "filter (\<lambda>r. row_level r = lvl) long =
      concat (map (\<lambda>c. map (\<lambda>f. \<lparr>row_filename = f, row_food_type = c,
                                           row_count = cell (vec f) c,
                                           row_level = lvl, row_group = grp f\<rparr>)
                                    (mat_index m))
                         (mat_columns m))" .
  show ?thesis
    apply (rule exI [of _ m], rule exI [of _ "\<lambda>f. cell (vec f)"], rule exI [of _ grp])
    using r di ne dc vals f by blast
qed

subsection \<open>The pivot of one level\<close>

lemma drop_duplicates_distinct: "distinct xs \<Longrightarrow> drop_duplicates xs = xs"
proof (induction xs)
  case Nil
  show ?case by simp
next
  case (Cons x xs)
  then have "filter (\<lambda>y. y \<noteq> x) xs = xs" by (auto simp: filter_id_conv)
  with Cons show ?case by simp
qed

lemma drop_duplicates_append_subset:
  "set ys \<subseteq> set xs \<Longrightarrow> drop_duplicates (xs @ ys) = drop_duplicates xs"
proof (induction xs arbitrary: ys rule: drop_duplicates.induct)
  case 1
  then show ?case by simp
next
  case (2 x xs)
  have "set (filter (\<lambda>y. y \<noteq> x) ys) \<subseteq> set (filter (\<lambda>y. y \<noteq> x) xs)"
    using "2.prems" by auto
  from "2.IH" [OF this] show ?case by simp
qed

lemma drop_duplicates_repeat:
  assumes "distinct fs" and "cs \<noteq> []"
  shows "drop_duplicates (concat (map (\<lambda>c. fs) cs)) = fs"
proof -
  from assms(2) obtain c cs' where cs: "cs = c # cs'" by (cases cs) auto
  have "set (concat (map (\<lambda>c. fs) cs')) \<subseteq> set fs" by auto
  then have "drop_duplicates (fs @ concat (map (\<lambda>c. fs) cs')) = drop_duplicates fs"
    by (rule drop_duplicates_append_subset)
  then show ?thesis using cs assms(1) by (simp add: drop_duplicates_distinct)
qed

lemma drop_duplicates_blocks:
  assumes "distinct cs" and "fs \<noteq> []"
  shows "drop_duplicates (concat (map (\<lambda>c. map (\<lambda>f. c) fs) cs)) = cs"
  using assms(1)
proof (induction cs)
  case Nil
  show ?case by simp
next
  case (Cons c cs)
  from assms(2) obtain f fs' where fs: "fs = f # fs'" by (cases fs) auto
  define rest where "rest = concat (map (\<lambda>c. map (\<lambda>f. c) fs) cs)"
  have "set rest \<subseteq> set cs" unfolding rest_def by auto
  then have "c \<notin> set rest" using Cons.prems by auto
  then have r: "filter (\<lambda>y. y \<noteq> c) rest = rest" by (auto simp: filter_id_conv)
  have b: "filter (\<lambda>y. y \<noteq> c) (map (\<lambda>f. c) fs') = []" by (simp add: filter_empty_conv)
  have m: "map (\<lambda>f. c) fs = c # map (\<lambda>f. c) fs'" unfolding fs by simp
  have "drop_duplicates (map (\<lambda>f. c) fs @ rest) = c # drop_duplicates rest"
    unfolding m by (simp add: b r)
  moreover have "drop_duplicates rest = cs"
    unfolding rest_def using Cons by simp
  ultimately show ?case by (simp add: rest_def)
qed

lemma find_cell:
  assumes "\<exists>r\<in>set rows. P r" and "\<forall>r\<in>set rows. P r \<longrightarrow> g r = a"
  shows "(case find P rows of None \<Rightarrow> 0 | Some r \<Rightarrow> g r) = (a::int)"
proof (cases "find P rows")
  case None
  then show ?thesis using assms(1) by (simp add: find_None_iff)
next
  case (Some r)
  then have "P r" and "r \<in> set rows" by (auto simp: find_Some_iff)
  then show ?thesis using Some assms(2) by simp
qed

lemma pivot_level_rows:
  assumes rows: "filter (\<lambda>r. row_level r = lvl) long =
             concat (map (\<lambda>c. map (\<lambda>f. \<lparr>row_filename = f, row_food_type = c, row_count = val f c,
                                           row_level = lvl, row_group = grp f\<rparr>) idx) cols)"
    and "distinct idx" "idx \<noteq> []" "distinct cols" "cols \<noteq> []"
  shows "pivot_level long lvl =
           \<lparr>mat_index = idx, mat_columns = cols, mat_values = map (\<lambda>f. map (val f) cols) idx\<rparr>"
proof -
  let ?R = "\<lambda>f c. \<lparr>row_filename = f, row_food_type = c, row_count = val f c,
                    row_level = lvl, row_group = grp f\<rparr>"
  let ?rows = "concat (map (\<lambda>c. map (\<lambda>f. ?R f c) idx) cols)"
  have i: "drop_duplicates (map row_filename ?rows) = idx"
    using drop_duplicates_repeat [OF assms(2) assms(5)] by (simp add: map_concat comp_def)
  have c: "drop_duplicates (map row_food_type ?rows) = cols"
    using drop_duplicates_blocks [OF assms(4) assms(3)] by (simp add: map_concat comp_def)
  have v: "(case find (\<lambda>r. row_filename r = f \<and> row_food_type r = c) ?rows of
              None \<Rightarrow> 0 | Some r \<Rightarrow> row_count r) = val f c"
    if "f \<in> set idx" "c \<in> set cols" for f c
  proof (rule find_cell)
    have "?R f c \<in> set ?rows" using that by auto
    then show "\<exists>r\<in>set ?rows. row_filename r = f \<and> row_food_type r = c" by force
    show "\<forall>r\<in>set ?rows. row_filename r = f \<and> row_food_type r = c \<longrightarrow> row_count r = val f c"
      by auto
  qed
  have "map (\<lambda>f. map (\<lambda>c. case find (\<lambda>r. row_filename r = f \<and> row_food_type r = c) ?rows of
                                   None \<Rightarrow> 0 | Some r \<Rightarrow> row_count r) cols) idx =
        map (\<lambda>f. map (val f) cols) idx"
    using v by (intro map_cong refl) auto
  then show ?thesis
    unfolding pivot_level_def Let_def rows i c by simp
qed

subsection \<open>The cluster selection\<close>

text \<open>
  C2.  For group names among G1 to G6, \<open>get_file_food_counts\<close> selects (lines 82 to
  87) exactly the rows of the table where every group of \<open>all_groups\<close> is greater
  than 0, some group of \<open>some_groups\<close> is greater than 0, and every group of G1 to
  G6 that is in neither list is 0; the rows keep their order.
\<close>

theorem select_groups_exact:
  assumes "set all_groups \<union> set some_groups \<subseteq> set groups"
  shows "select_groups gnps_network all_groups some_groups =
         Inr (filter (\<lambda>r. (\<forall>g\<in>set all_groups. \<exists>c. numeric_column g = Some c \<and> 0 < c r) \<and>
                          (\<exists>g\<in>set some_groups. \<exists>c. numeric_column g = Some c \<and> 0 < c r) \<and>
                          (\<forall>g\<in>set groups - (set all_groups \<union> set some_groups).
                              \<exists>c. numeric_column g = Some c \<and> c r = 0))
                     gnps_network)"
proof -
  have sa: "set all_groups \<subseteq> set groups" and ss: "set some_groups \<subseteq> set groups"
    using assms by auto
  have se: "set (groups_excluded all_groups some_groups) \<subseteq> set groups"
    by (auto simp: groups_excluded_set)
  have pa: "list_all (\<lambda>c. 0 < c r) (List.map_filter numeric_column all_groups) \<longleftrightarrow>
            (\<forall>g\<in>set all_groups. \<exists>c. numeric_column g = Some c \<and> 0 < c r)" for r
    using list_all_numeric [OF sa, where P = "\<lambda>v. 0 < v"] .
  have ps: "list_ex (\<lambda>c. 0 < c r) (List.map_filter numeric_column some_groups) \<longleftrightarrow>
            (\<exists>g\<in>set some_groups. \<exists>c. numeric_column g = Some c \<and> 0 < c r)" for r
    using list_ex_numeric [where P = "\<lambda>v. 0 < v"] .
  have pe: "list_all (\<lambda>c. c r = 0)
              (List.map_filter numeric_column (groups_excluded all_groups some_groups)) \<longleftrightarrow>
            (\<forall>g\<in>set groups - (set all_groups \<union> set some_groups).
                \<exists>c. numeric_column g = Some c \<and> c r = 0)" for r
    using list_all_numeric [OF se, where P = "\<lambda>v. v = 0"]
    by (simp add: groups_excluded_set)
  show ?thesis
    unfolding select_groups_def
    by (simp add: select_columns_groups [OF sa] select_columns_groups [OF ss]
          select_columns_groups [OF se] mask_and_map bool_index_map pa ps pe)
qed


theorem select_groups_exact_witness:
  "set [''G1''] \<union> set [''G4''] \<subseteq> set groups \<and>
   select_groups example_network [''G1''] [''G4''] =
     Inr [example_row 1 0 3 ''G1,G4'' ''s1.mzXML|apple1.mzXML|apple2.mzXML|pear1.mzXML'',
          example_row 1 0 5 ''G1,G4''
            ''s2.mzXML|apple1.mzXML|beef1.mzXML|beef2.mzXML|beef3.mzXML|pear1.mzXML'',
          example_row 2 0 1 ''G1,G4'' ''s2.mzXML|s3.mzXML|blank1.mzXML'']"
proof -
  have h: "set [''G1''] \<union> set [''G4''] \<subseteq> set groups"
    by (simp add: groups_def)
  have e: "select_groups example_network [''G1''] [''G4''] =
     Inr [example_row 1 0 3 ''G1,G4'' ''s1.mzXML|apple1.mzXML|apple2.mzXML|pear1.mzXML'',
          example_row 1 0 5 ''G1,G4''
            ''s2.mzXML|apple1.mzXML|beef1.mzXML|beef2.mzXML|beef3.mzXML|pear1.mzXML'',
          example_row 2 0 1 ''G1,G4'' ''s2.mzXML|s3.mzXML|blank1.mzXML'']"
    by code_simp
  show ?thesis
    using h e select_groups_exact [OF h, of example_network] by blast
qed

subsection \<open>The group of each study file\<close>

text \<open>
  C5.  \<open>get_sample_metadata\<close> returns the pairs (group, file name) of the rows whose
  \<open>DefaultGroups\<close> has no comma and is one of \<open>all_groups\<close>, one pair per element
  of the \<open>|\<close>-split \<open>UniqueFileSources\<close>, each pair once.  Rows with a comma in
  \<open>DefaultGroups\<close> are dropped first: removing them from the table, and so removing
  every row annotated \<open>G1,G2\<close>, leaves the result as it is.
\<close>

theorem get_sample_metadata_pairs:
  "set (get_sample_metadata gnps_network all_groups) =
     {(DefaultGroups r, f) | r f.
        r \<in> set gnps_network \<and> CHR '','' \<notin> set (DefaultGroups r) \<and>
        DefaultGroups r \<in> set all_groups \<and>
        f \<in> set (split_sep (CHR ''|'') (UniqueFileSources r))}
   \<and> distinct (get_sample_metadata gnps_network all_groups)
   \<and> get_sample_metadata (filter (\<lambda>r. CHR '','' \<notin> set (DefaultGroups r)) gnps_network) all_groups =
       get_sample_metadata gnps_network all_groups
   \<and> get_sample_metadata (filter (\<lambda>r. DefaultGroups r \<noteq> ''G1,G2'') gnps_network) all_groups =
       get_sample_metadata gnps_network all_groups"
proof -
  have 1: "set (get_sample_metadata gnps_network all_groups) =
     {(DefaultGroups r, f) | r f.
        r \<in> set gnps_network \<and> CHR '','' \<notin> set (DefaultGroups r) \<and>
        DefaultGroups r \<in> set all_groups \<and>
        f \<in> set (split_sep (CHR ''|'') (UniqueFileSources r))}"
    by (auto simp: get_sample_metadata_def Let_def set_drop_duplicates)
  have 2: "distinct (get_sample_metadata gnps_network all_groups)"
    by (simp add: get_sample_metadata_def Let_def distinct_drop_duplicates)
  have 3: "get_sample_metadata (filter (\<lambda>r. CHR '','' \<notin> set (DefaultGroups r)) gnps_network) all_groups =
       get_sample_metadata gnps_network all_groups"
    by (simp add: get_sample_metadata_def Let_def)
  have "filter (\<lambda>r. CHR '','' \<notin> set (DefaultGroups r))
          (filter (\<lambda>r. DefaultGroups r \<noteq> ''G1,G2'') gnps_network)
      = filter (\<lambda>r. CHR '','' \<notin> set (DefaultGroups r)) gnps_network"
    by (auto intro!: filter_cong)
  then have 4: "get_sample_metadata (filter (\<lambda>r. DefaultGroups r \<noteq> ''G1,G2'') gnps_network) all_groups =
       get_sample_metadata gnps_network all_groups"
    by (simp add: get_sample_metadata_def Let_def)
  show ?thesis using 1 2 3 4 by blast
qed

theorem get_sample_metadata_pairs_witness:
  "get_sample_metadata (filter (\<lambda>r. DefaultGroups r \<noteq> ''G1,G2'') example_network) [''G1'', ''G2''] =
     [(''G1'', ''s1.mzXML''), (''G1'', ''s2.mzXML''), (''G1'', ''s3.mzXML'')]"
proof -
  have e: "get_sample_metadata example_network [''G1'', ''G2''] =
     [(''G1'', ''s1.mzXML''), (''G1'', ''s2.mzXML''), (''G1'', ''s3.mzXML'')]"
    by code_simp
  show ?thesis
    using get_sample_metadata_pairs [of example_network "[''G1'', ''G2'']"] e by simp
qed

subsection \<open>No file with counts\<close>

text \<open>
  C4.  In the network \<open>blank.tsv\<close> the study file s1.mzXML meets a blank only: its
  count vector at level 1 is empty, so no file has counts, and
  \<open>get_dataset_food_counts\<close> raises ValueError where the claim expects an empty
  matrix.
\<close>

theorem get_dataset_food_counts_no_counts:
  "get_file_food_counts blank_network (fst (get_sample_types ''all'' example_world))
     [''G1''] [''G4''] (PyList [''s1.mzXML'']) 1 = Inr [] \<and>
   fst (get_dataset_food_counts ''blank.tsv'' ''all'' [''G1''] [''G4''] 1 example_world) =
     Inl ValueError"
  by code_simp

subsection \<open>The noise floor\<close>

text \<open>
  C1.  When the level is positive and \<open>get_file_food_counts\<close> returns a table, every
  count of the table is greater than the noise floor, the number of labels equal to
  \<open>water\<close> among the labels of the exploded file names found in the ontology table
  (lines 82 to 97), and \<open>water\<close> is no label of the table.  In the scenario of the
  specification the result at level 3 is fruit with count 2 and nothing else, for every
  \<open>filename\<close> argument of which an element occurs in the file list of the cluster.
\<close>

theorem get_file_food_counts_above_noise_floor:
  "(0 < level \<longrightarrow>
    get_file_food_counts gnps_network sample_types all_groups some_groups filename level = Inr v \<longrightarrow>
      (\<exists>selected.
         sample_types_selected gnps_network sample_types all_groups some_groups filename level = Inr selected \<and>
         (\<forall>(l, c)\<in>set v. int (length (filter (\<lambda>x. x = ''water'') selected)) < c) \<and>
         ''water'' \<notin> fst ` set v))
   \<and> (list_ex (\<lambda>fn. sublist fn ''ref1.mzXML|ref2.mzXML|water1.mzXML'') (iter_filename study_files) \<longrightarrow>
        get_file_food_counts scenario_network scenario_sample_types [''G1''] [''G1''] study_files 3 =
          Inr [(''fruit'', 2)])"
proof (intro conjI impI)
  assume lv: "0 < level"
    and r: "get_file_food_counts gnps_network sample_types all_groups some_groups filename level = Inr v"
  from r obtain selected where
    s: "sample_types_selected gnps_network sample_types all_groups some_groups filename level = Inr selected"
    and v: "v = noise_filter level selected"
    by (auto simp: get_file_food_counts_def split: sum.splits)
  have above: "int (length (filter (\<lambda>x. x = ''water'') selected)) < c" if "(l, c) \<in> set v" for l c
    using noise_filter_entry [of l c level selected] that lv by (simp add: v water_count_eq)
  have "''water'' \<notin> fst ` set v"
  proof
    assume "''water'' \<in> fst ` set v"
    then obtain c where "(''water'', c) \<in> set v" by auto
    then show False
      using noise_filter_entry [of "''water''" c level selected] lv unfolding v by auto
  qed
  with s above show "\<exists>selected.
         sample_types_selected gnps_network sample_types all_groups some_groups filename level = Inr selected \<and>
         (\<forall>(l, c)\<in>set v. int (length (filter (\<lambda>x. x = ''water'') selected)) < c) \<and>
         ''water'' \<notin> fst ` set v"
    by blast
next
  assume m: "list_ex (\<lambda>fn. sublist fn ''ref1.mzXML|ref2.mzXML|water1.mzXML'') (iter_filename study_files)"
  have g: "select_groups scenario_network [''G1''] [''G1''] = Inr scenario_network"
    by code_simp
  have f: "select_files scenario_network study_files = scenario_network"
    using m by (simp add: select_files_def scenario_network_def)
  have c: "sample_type_column 3 = Inr sample_type_group3"
    by (simp add: sample_type_column_def)
  have e: "explode_file_sources scenario_network scenario_network =
           Inr [''ref1.mzXML'', ''ref2.mzXML'', ''water1.mzXML'']"
    by code_simp
  have x: "reindex_dropna scenario_sample_types sample_type_group3
             [''ref1.mzXML'', ''ref2.mzXML'', ''water1.mzXML''] =
           Inr [''fruit'', ''fruit'', ''water'']"
    by code_simp
  have n: "noise_filter 3 [''fruit'', ''fruit'', ''water''] = [(''fruit'', 2)]"
    by code_simp
  show "get_file_food_counts scenario_network scenario_sample_types [''G1''] [''G1''] study_files 3 =
          Inr [(''fruit'', 2)]"
    by (simp add: get_file_food_counts_def sample_types_selected_def g f e c x n)
qed

theorem get_file_food_counts_above_noise_floor_witness:
  "0 < (3::int) \<and>
   get_file_food_counts scenario_network scenario_sample_types [''G1''] [''G1'']
     (PyList [''ref1.mzXML'']) 3 = Inr [(''fruit'', 2)] \<and>
   sample_types_selected scenario_network scenario_sample_types [''G1''] [''G1'']
     (PyList [''ref1.mzXML'']) 3 = Inr [''fruit'', ''fruit'', ''water''] \<and>
   list_ex (\<lambda>fn. sublist fn ''ref1.mzXML|ref2.mzXML|water1.mzXML'') (iter_filename (PyList [''ref1.mzXML''])) \<and>
   int (length (filter (\<lambda>x. x = ''water'') [''fruit'', ''fruit'', ''water''])) < 2 \<and>
   ''water'' \<notin> fst ` set [(''fruit'', 2::int)]"
proof -
  have m: "list_ex (\<lambda>fn. sublist fn ''ref1.mzXML|ref2.mzXML|water1.mzXML'') (iter_filename (PyList [''ref1.mzXML'']))"
    by code_simp
  have s: "sample_types_selected scenario_network scenario_sample_types [''G1''] [''G1'']
     (PyList [''ref1.mzXML'']) 3 = Inr [''fruit'', ''fruit'', ''water'']"
    by code_simp
  have r: "get_file_food_counts scenario_network scenario_sample_types [''G1''] [''G1'']
     (PyList [''ref1.mzXML'']) 3 = Inr [(''fruit'', 2)]"
    using get_file_food_counts_above_noise_floor
      [of 3 scenario_network scenario_sample_types "[''G1'']" "[''G1'']" "PyList [''ref1.mzXML'']"
          "[(''fruit'', 2)]" "PyList [''ref1.mzXML'']"] m
    by blast
  have a: "int (length (filter (\<lambda>x. x = ''water'') [''fruit'', ''fruit'', ''water''])) < 2 \<and>
           ''water'' \<notin> fst ` set [(''fruit'', 2::int)]"
    using get_file_food_counts_above_noise_floor
      [of 3 scenario_network scenario_sample_types "[''G1'']" "[''G1'']" "PyList [''ref1.mzXML'']"
          "[(''fruit'', 2)]" "PyList [''ref1.mzXML'']"] r s
    by auto
  show ?thesis using m s r a by simp
qed

subsection \<open>Level 0\<close>

text \<open>
  At level 0 the code reads the column \<open>sample_name\<close> (line 94): the labels of the
  result are sample names, not reference file names.  In the example network the study
  file s3.mzXML meets the reference file blank1.mzXML, which is in the ontology table; the
  result has the label \<open>blank\<close>, the sample name, and no label blank1.mzXML.
\<close>

theorem level0_labels_counterexample:
  "get_file_food_counts example_network (fst (get_sample_types ''all'' example_world))
     [''G1''] [''G4''] (PyList [''s3.mzXML'']) 0 = Inr [(''blank'', 1)] \<and>
   ''blank1.mzXML'' \<in> fst ` set (fst (get_sample_types ''all'' example_world)) \<and>
   ''blank1.mzXML'' \<notin> fst ` set [(''blank'', 1::int)]"
  by code_simp

text \<open>
  C3, as the code has it.  When the level is 0 no noise floor is applied, and every
  exploded file name that is in the ontology table with a sample name is counted under
  that sample name: the count of a label is the number of exploded file names (with
  repetitions) whose sample name it is, and the labels of the result are the sample names
  of the exploded file names.  The file name is the key of the ontology table: no two of
  its rows have the same.
\<close>

theorem get_file_food_counts_level0:
  assumes "get_file_food_counts gnps_network sample_types all_groups some_groups filename 0 = Inr v"
    and "select_groups gnps_network all_groups some_groups = Inr df_groups"
    and "distinct (map fst sample_types)"
  shows "(\<forall>l. cell v l =
            int (length (filter (\<lambda>f. \<exists>r. map_of sample_types f = Some r \<and> sample_name r = Some l)
                   (concat (map (\<lambda>r. split_sep (CHR ''|'') (UniqueFileSources r))
                                (select_files df_groups filename)))))) \<and>
         fst ` set v =
           {l. \<exists>f\<in>set (concat (map (\<lambda>r. split_sep (CHR ''|'') (UniqueFileSources r))
                                     (select_files df_groups filename))).
                 \<exists>r. map_of sample_types f = Some r \<and> sample_name r = Some l}"
proof -
  let ?ids = "concat (map (\<lambda>r. split_sep (CHR ''|'') (UniqueFileSources r)) (select_files df_groups filename))"
  let ?g = "\<lambda>f. case map_of sample_types f of None \<Rightarrow> None | Some r \<Rightarrow> sample_name r"
  have g: "?g f = Some l \<longleftrightarrow> (\<exists>r. map_of sample_types f = Some r \<and> sample_name r = Some l)" for f l
    by (auto split: option.splits)
  from assms(1) obtain selected where
    s: "sample_types_selected gnps_network sample_types all_groups some_groups filename 0 = Inr selected"
    and v: "v = noise_filter 0 selected"
    by (auto simp: get_file_food_counts_def split: sum.splits)
  have c: "sample_type_column 0 = Inr sample_name"
    by (simp add: sample_type_column_def)
  from s have "reindex_dropna sample_types sample_name ?ids = Inr selected"
    by (simp add: sample_types_selected_def assms(2) c Let_def explode_file_sources_def
          split: if_splits)
  then have sel: "selected = List.map_filter ?g ?ids"
    using assms(3) by (simp add: reindex_dropna_def)
  have v': "v = value_counts selected"
    using v noise_filter_level0 [of 0 selected] by simp
  have 1: "cell v l = int (length (filter (\<lambda>f. \<exists>r. map_of sample_types f = Some r \<and> sample_name r = Some l) ?ids))" for l
    unfolding v' cell_value_counts sel count_list_map_filter g ..
  have 2: "fst ` set v = {l. \<exists>f\<in>set ?ids. \<exists>r. map_of sample_types f = Some r \<and> sample_name r = Some l}"
    unfolding v' set_value_counts image_image sel set_map_filter g by simp
  show ?thesis using 1 2 by blast
qed

theorem get_file_food_counts_level0_witness:
  "get_file_food_counts example_network (fst (get_sample_types ''all'' example_world))
     [''G1''] [''G4''] (PyList [''s1.mzXML'']) 0 = Inr [(''apple'', 2), (''pear'', 1)] \<and>
   distinct (map fst (fst (get_sample_types ''all'' example_world))) \<and>
   select_groups example_network [''G1''] [''G4''] =
     Inr [example_row 1 0 3 ''G1,G4'' ''s1.mzXML|apple1.mzXML|apple2.mzXML|pear1.mzXML'',
          example_row 1 0 5 ''G1,G4''
            ''s2.mzXML|apple1.mzXML|beef1.mzXML|beef2.mzXML|beef3.mzXML|pear1.mzXML'',
          example_row 2 0 1 ''G1,G4'' ''s2.mzXML|s3.mzXML|blank1.mzXML''] \<and>
   fst ` set [(''apple'', 2::int), (''pear'', 1)] =
     {l. \<exists>f\<in>set (concat (map (\<lambda>r. split_sep (CHR ''|'') (UniqueFileSources r))
           (select_files
              [example_row 1 0 3 ''G1,G4'' ''s1.mzXML|apple1.mzXML|apple2.mzXML|pear1.mzXML'',
               example_row 1 0 5 ''G1,G4''
            ''s2.mzXML|apple1.mzXML|beef1.mzXML|beef2.mzXML|beef3.mzXML|pear1.mzXML'',
               example_row 2 0 1 ''G1,G4'' ''s2.mzXML|s3.mzXML|blank1.mzXML'']
              (PyList [''s1.mzXML''])))).
          \<exists>r. map_of (fst (get_sample_types ''all'' example_world)) f = Some r \<and> sample_name r = Some l}"
proof -
  have h1: "get_file_food_counts example_network (fst (get_sample_types ''all'' example_world))
     [''G1''] [''G4''] (PyList [''s1.mzXML'']) 0 = Inr [(''apple'', 2), (''pear'', 1)]"
    by code_simp
  have h3: "distinct (map fst (fst (get_sample_types ''all'' example_world)))"
    by code_simp
  have h2: "select_groups example_network [''G1''] [''G4''] =
     Inr [example_row 1 0 3 ''G1,G4'' ''s1.mzXML|apple1.mzXML|apple2.mzXML|pear1.mzXML'',
          example_row 1 0 5 ''G1,G4''
            ''s2.mzXML|apple1.mzXML|beef1.mzXML|beef2.mzXML|beef3.mzXML|pear1.mzXML'',
          example_row 2 0 1 ''G1,G4'' ''s2.mzXML|s3.mzXML|blank1.mzXML'']"
    by code_simp
  show ?thesis
    using h1 h2 h3 get_file_food_counts_level0 [OF h1 h2 h3] by blast
qed

subsection \<open>The file restriction\<close>

text \<open>
  C10.  The restriction to the target file (lines 88 to 90) keeps a row when some element
  of the \<open>filename\<close> argument is a substring of \<open>UniqueFileSources\<close>.  For a
  list the elements are its file names; for a string they are its characters, so a row is
  kept when it contains any character of the name.  The loop of
  \<open>get_dataset_food_counts\<close> passes the file name in a list of one element.  In the
  example network the two ways of passing s1.mzXML give different counts.
\<close>

theorem select_files_by_element:
  "select_files df_selected (PyList fns) =
     filter (\<lambda>r. \<exists>fn\<in>set fns. sublist fn (UniqueFileSources r)) df_selected \<and>
   select_files df_selected (PyStr s) =
     filter (\<lambda>r. \<exists>c\<in>set s. c \<in> set (UniqueFileSources r)) df_selected \<and>
   file_loop gnps_network sample_types all_groups some_groups level [f] (food_counts, filenames) =
     (case get_file_food_counts gnps_network sample_types all_groups some_groups (PyList [f]) level of
        Inl e \<Rightarrow> Inl e
      | Inr file_food_counts \<Rightarrow>
          Inr (if 0 < length file_food_counts
               then (food_counts @ [file_food_counts], filenames @ [f])
               else (food_counts, filenames))) \<and>
   get_file_food_counts example_network (fst (get_sample_types ''all'' example_world))
     [''G1''] [''G4''] (PyList [''s1.mzXML'']) 1 = Inr [(''fruit'', 3)] \<and>
   get_file_food_counts example_network (fst (get_sample_types ''all'' example_world))
     [''G1''] [''G4''] (PyStr ''s1.mzXML'') 1 = Inr [(''fruit'', 5), (''meat'', 3)]"
proof -
  have 1: "select_files df_selected (PyList fns) =
     filter (\<lambda>r. \<exists>fn\<in>set fns. sublist fn (UniqueFileSources r)) df_selected"
    by (simp add: select_files_def list_ex_iff)
  have 2: "select_files df_selected (PyStr s) =
     filter (\<lambda>r. \<exists>c\<in>set s. c \<in> set (UniqueFileSources r)) df_selected"
    by (simp add: select_files_def list_ex_iff sublist_single)
  have 3: "file_loop gnps_network sample_types all_groups some_groups level [f] (food_counts, filenames) =
     (case get_file_food_counts gnps_network sample_types all_groups some_groups (PyList [f]) level of
        Inl e \<Rightarrow> Inl e
      | Inr file_food_counts \<Rightarrow>
          Inr (if 0 < length file_food_counts
               then (food_counts @ [file_food_counts], filenames @ [f])
               else (food_counts, filenames)))"
    by (simp split: sum.splits)
  have 4: "get_file_food_counts example_network (fst (get_sample_types ''all'' example_world))
     [''G1''] [''G4''] (PyList [''s1.mzXML'']) 1 = Inr [(''fruit'', 3)]"
    by code_simp
  have 5: "get_file_food_counts example_network (fst (get_sample_types ''all'' example_world))
     [''G1''] [''G4''] (PyStr ''s1.mzXML'') 1 = Inr [(''fruit'', 5), (''meat'', 3)]"
    by code_simp
  show ?thesis using 1 2 3 4 5 by blast
qed

theorem select_files_by_element_witness:
  "select_files example_network (PyStr ''s3'') =
     filter (\<lambda>r. \<exists>c\<in>set ''s3''. c \<in> set (UniqueFileSources r)) example_network \<and>
   select_files example_network (PyList [''s3'']) =
     filter (\<lambda>r. \<exists>fn\<in>set [''s3'']. sublist fn (UniqueFileSources r)) example_network \<and>
   length (select_files example_network (PyStr ''s3'')) = 7 \<and>
   length (select_files example_network (PyList [''s3''])) = 2"
proof -
  have l: "length (select_files example_network (PyStr ''s3'')) = 7 \<and>
   length (select_files example_network (PyList [''s3''])) = 2"
    by code_simp
  show ?thesis
    using l select_files_by_element [of example_network "[''s3'']" "''s3''"] by blast
qed

subsection \<open>The count matrix\<close>

text \<open>
  C6.  When \<open>get_dataset_food_counts\<close> returns a matrix, \<open>get_file_food_counts\<close>
  has returned a count vector for every file name of the metadata, in their order.  The
  rows of the matrix are the files whose vector has a nonzero count, in the order they
  were processed and indexed by file name; the columns are the labels of these vectors;
  the cell of a file and a label is the count the vector gives the label, and 0 when the
  vector does not have the label.
\<close>

theorem get_dataset_food_counts_matrix:
  assumes "fst (get_dataset_food_counts gnps_network sample_types all_groups some_groups level w) = Inr m"
  shows "\<exists>gnps_df vs.
           tsv_files w gnps_network = Some gnps_df \<and>
           map (\<lambda>f. get_file_food_counts gnps_df (fst (get_sample_types sample_types w))
                       all_groups some_groups (PyList [f]) level)
               (map snd (get_sample_metadata gnps_df all_groups)) = map Inr vs \<and>
           mat_index m =
             map fst (filter (\<lambda>(f, v). \<exists>(l, c)\<in>set v. c \<noteq> 0)
                        (zip (map snd (get_sample_metadata gnps_df all_groups)) vs)) \<and>
           mat_values m =
             map (\<lambda>(f, v). map (\<lambda>label. case map_of v label of None \<Rightarrow> 0 | Some n \<Rightarrow> n)
                                 (mat_columns m))
                 (filter (\<lambda>(f, v). \<exists>(l, c)\<in>set v. c \<noteq> 0)
                    (zip (map snd (get_sample_metadata gnps_df all_groups)) vs)) \<and>
           set (mat_columns m) =
             (\<Union>(f, v)\<in>set (filter (\<lambda>(f, v). \<exists>(l, c)\<in>set v. c \<noteq> 0)
                                (zip (map snd (get_sample_metadata gnps_df all_groups)) vs)).
                fst ` set v)"
proof -
  from get_dataset_food_counts_Inr [OF assms] obtain gnps_df fc fns where
    df: "tsv_files w gnps_network = Some gnps_df"
    and loop: "file_loop gnps_df (fst (get_sample_types sample_types w)) all_groups some_groups level
             (map snd (get_sample_metadata gnps_df all_groups)) ([], []) = Inr (fc, fns)"
    and idx: "mat_index m = fns"
    and cols: "mat_columns m = sort (remdups (concat (map (map fst) fc)))"
    and vals: "mat_values m = map (\<lambda>v. map (cell v) (mat_columns m)) fc"
    by blast
  let ?files = "map snd (get_sample_metadata gnps_df all_groups)"
  let ?G = "\<lambda>f. get_file_food_counts gnps_df (fst (get_sample_types sample_types w))
                       all_groups some_groups (PyList [f]) level"
  from file_loop_Inr [OF loop] obtain vs where
    vs: "map ?G ?files = map Inr vs"
    and fc: "fc = map snd (filter (\<lambda>(f, v). v \<noteq> []) (zip ?files vs))"
    and fns: "fns = map fst (filter (\<lambda>(f, v). v \<noteq> []) (zip ?files vs))"
    by auto
  have len: "length vs = length ?files"
    using arg_cong [OF vs, of length] by simp
  have G: "?G f = Inr v" if "(f, v) \<in> set (zip ?files vs)" for f v
  proof -
    from that obtain i where i: "i < length ?files" "?files ! i = f" "vs ! i = v"
      using len by (auto simp: set_zip)
    have "map ?G ?files ! i = map Inr vs ! i" using vs by simp
    then show ?thesis using i len by simp
  qed
  have keep: "filter (\<lambda>(f, v). v \<noteq> []) (zip ?files vs) =
              filter (\<lambda>(f, v). \<exists>(l, c)\<in>set v. c \<noteq> 0) (zip ?files vs)"
  proof (rule filter_cong [OF refl])
    fix p assume p: "p \<in> set (zip ?files vs)"
    obtain f v where fv: "p = (f, v)" by (cases p)
    show "(case p of (f, v) \<Rightarrow> v \<noteq> []) = (case p of (f, v) \<Rightarrow> \<exists>(l, c)\<in>set v. c \<noteq> 0)"
      using get_file_food_counts_nonempty [OF G] p fv by simp
  qed
  let ?kept = "filter (\<lambda>(f, v). \<exists>(l, c)\<in>set v. c \<noteq> 0) (zip ?files vs)"
  have 1: "mat_index m = map fst ?kept"
    using idx fns keep by simp
  have 2: "mat_values m =
             map (\<lambda>(f, v). map (\<lambda>label. case map_of v label of None \<Rightarrow> 0 | Some n \<Rightarrow> n) (mat_columns m)) ?kept"
    unfolding vals fc keep by (simp add: cell_def case_prod_beta comp_def)
  have 3: "set (mat_columns m) = (\<Union>(f, v)\<in>set ?kept. fst ` set v)"
    unfolding cols fc keep by (simp only: set_sort set_remdups set_labels_of_pairs)
  show ?thesis using df vs 1 2 3 by blast
qed


theorem get_dataset_food_counts_matrix_witness:
  "fst (get_dataset_food_counts ''network.tsv'' ''all'' [''G1''] [''G4''] 1 example_world) =
     Inr \<lparr>mat_index = [''s1.mzXML'', ''s2.mzXML''], mat_columns = [''fruit'', ''meat''],
          mat_values = [[3, 0], [2, 3]]\<rparr> \<and>
   tsv_files example_world ''network.tsv'' = Some example_network \<and>
   map (\<lambda>f. get_file_food_counts example_network (fst (get_sample_types ''all'' example_world))
               [''G1''] [''G4''] (PyList [f]) 1)
       (map snd (get_sample_metadata example_network [''G1''])) =
     map Inr [[(''fruit'', 3)], [(''meat'', 3), (''fruit'', 2)], []] \<and>
   [''s1.mzXML'', ''s2.mzXML''] =
     map fst (filter (\<lambda>(f, v). \<exists>(l, c)\<in>set v. c \<noteq> 0)
                (zip (map snd (get_sample_metadata example_network [''G1'']))
                     [[(''fruit'', 3::int)], [(''meat'', 3), (''fruit'', 2)], []]))"
proof -
  let ?m = "\<lparr>mat_index = [''s1.mzXML'', ''s2.mzXML''], mat_columns = [''fruit'', ''meat''],
          mat_values = [[3, 0], [2, 3]]\<rparr>"
  have h: "fst (get_dataset_food_counts ''network.tsv'' ''all'' [''G1''] [''G4''] 1 example_world) = Inr ?m"
    by code_simp
  have t: "tsv_files example_world ''network.tsv'' = Some example_network"
    by (simp add: example_world_def)
  have g: "map (\<lambda>f. get_file_food_counts example_network (fst (get_sample_types ''all'' example_world))
               [''G1''] [''G4''] (PyList [f]) 1)
       (map snd (get_sample_metadata example_network [''G1''])) =
     map Inr [[(''fruit'', 3)], [(''meat'', 3), (''fruit'', 2)], []]"
    by code_simp
  from get_dataset_food_counts_matrix [OF h] obtain gnps_df vs where
    1: "tsv_files example_world ''network.tsv'' = Some gnps_df"
    and 2: "map (\<lambda>f. get_file_food_counts gnps_df (fst (get_sample_types ''all'' example_world))
               [''G1''] [''G4''] (PyList [f]) 1)
       (map snd (get_sample_metadata gnps_df [''G1''])) = map Inr vs"
    and 3: "mat_index ?m = map fst (filter (\<lambda>(f, v). \<exists>(l, c)\<in>set v. c \<noteq> 0)
                (zip (map snd (get_sample_metadata gnps_df [''G1''])) vs))"
    by blast
  from 1 t have d: "gnps_df = example_network" by simp
  have "(map Inr vs :: (error + food_counts) list) =
        map Inr [[(''fruit'', 3)], [(''meat'', 3), (''fruit'', 2)], []]"
    using trans [OF sym [OF 2 [unfolded d]] g] .
  then have v: "vs = [[(''fruit'', 3)], [(''meat'', 3), (''fruit'', 2)], []]"
    by (simp only: inj_map_eq_map [OF inj_Inr])
  from 3 d v have "[''s1.mzXML'', ''s2.mzXML''] =
     map fst (filter (\<lambda>(f, v). \<exists>(l, c)\<in>set v. c \<noteq> 0)
                (zip (map snd (get_sample_metadata example_network [''G1'']))
                     [[(''fruit'', 3::int)], [(''meat'', 3), (''fruit'', 2)], []]))"
    by simp
  with h t g show ?thesis by blast
qed

subsection \<open>The long table\<close>

text \<open>
  \<open>melt\<close> lists the molten frame column by column: for every label in turn, the
  cell of every file.  In the network \<open>small.tsv\<close> the two rows of s1.mzXML are not
  next to each other: the apple rows of both files come before the beef rows.
\<close>

theorem long_table_file_major_counterexample:
  "fst (get_dataset_food_counts_all ''small.tsv'' ''all'' [''G1''] [''G4''] 0 example_world) =
     Inr [\<lparr>row_filename = ''s1.mzXML'', row_food_type = ''apple'', row_count = 1, row_level = 0,
           row_group = Some ''G1''\<rparr>,
          \<lparr>row_filename = ''s2.mzXML'', row_food_type = ''apple'', row_count = 1, row_level = 0,
           row_group = Some ''G1''\<rparr>,
          \<lparr>row_filename = ''s1.mzXML'', row_food_type = ''beef'', row_count = 0, row_level = 0,
           row_group = Some ''G1''\<rparr>,
          \<lparr>row_filename = ''s2.mzXML'', row_food_type = ''beef'', row_count = 2, row_level = 0,
           row_group = Some ''G1''\<rparr>]"
  by code_simp

text \<open>
  C8, as the code has it.  When \<open>get_dataset_food_counts_all\<close> returns a table, its
  rows are ordered by level, ascending, every level is between 0 and \<open>levels\<close>, and
  the rows of one level are in label-major order: for every label of the level's matrix
  in turn (in the order of its columns), one row for every file of the matrix (in the
  order of its index).
\<close>

theorem long_table_order:
  assumes "fst (get_dataset_food_counts_all gnps_network sample_types all_groups some_groups levels w) = Inr long"
  shows "sorted (map row_level long) \<and> set (map row_level long) \<subseteq> {0..levels} \<and>
         (\<forall>lvl. 0 \<le> lvl \<and> lvl \<le> levels \<longrightarrow>
            (\<exists>m. fst (get_dataset_food_counts gnps_network sample_types all_groups some_groups lvl w) = Inr m \<and>
                 map (\<lambda>r. (row_food_type r, row_filename r)) (filter (\<lambda>r. row_level r = lvl) long) =
                   List.product (mat_columns m) (mat_index m)))"
proof -
  have "\<exists>m. fst (get_dataset_food_counts gnps_network sample_types all_groups some_groups lvl w) = Inr m \<and>
            map (\<lambda>r. (row_food_type r, row_filename r)) (filter (\<lambda>r. row_level r = lvl) long) =
              List.product (mat_columns m) (mat_index m)"
    if "0 \<le> lvl \<and> lvl \<le> levels" for lvl
  proof -
    from that have "0 \<le> lvl" "lvl \<le> levels" by simp_all
    from long_table_level [OF assms this] obtain m val grp where
      r: "fst (get_dataset_food_counts gnps_network sample_types all_groups some_groups lvl w) = Inr m"
      and f: "filter (\<lambda>r. row_level r = lvl) long =
             concat (map (\<lambda>c. map (\<lambda>f. \<lparr>row_filename = f, row_food_type = c, row_count = val f c,
                                           row_level = lvl, row_group = grp f\<rparr>)
                                    (mat_index m))
                         (mat_columns m))"
      by blast
    have "map (\<lambda>r. (row_food_type r, row_filename r)) (filter (\<lambda>r. row_level r = lvl) long) =
          List.product (mat_columns m) (mat_index m)"
      unfolding f by (simp add: map_concat comp_def product_concat_map)
    with r show ?thesis by blast
  qed
  with long_table_sorted [OF assms] show ?thesis by blast
qed

theorem long_table_order_witness:
  "fst (get_dataset_food_counts_all ''small.tsv'' ''all'' [''G1''] [''G4''] 0 example_world) =
     Inr [\<lparr>row_filename = ''s1.mzXML'', row_food_type = ''apple'', row_count = 1, row_level = 0,
           row_group = Some ''G1''\<rparr>,
          \<lparr>row_filename = ''s2.mzXML'', row_food_type = ''apple'', row_count = 1, row_level = 0,
           row_group = Some ''G1''\<rparr>,
          \<lparr>row_filename = ''s1.mzXML'', row_food_type = ''beef'', row_count = 0, row_level = 0,
           row_group = Some ''G1''\<rparr>,
          \<lparr>row_filename = ''s2.mzXML'', row_food_type = ''beef'', row_count = 2, row_level = 0,
           row_group = Some ''G1''\<rparr>] \<and>
   sorted [0, 0, 0, 0 :: int] \<and>
   fst (get_dataset_food_counts ''small.tsv'' ''all'' [''G1''] [''G4''] 0 example_world) =
     Inr \<lparr>mat_index = [''s1.mzXML'', ''s2.mzXML''], mat_columns = [''apple'', ''beef''],
          mat_values = [[1, 0], [1, 2]]\<rparr> \<and>
   [(''apple'', ''s1.mzXML''), (''apple'', ''s2.mzXML''), (''beef'', ''s1.mzXML''), (''beef'', ''s2.mzXML'')] =
     List.product [''apple'', ''beef''] [''s1.mzXML'', ''s2.mzXML'']"
proof -
  let ?long = "[\<lparr>row_filename = ''s1.mzXML'', row_food_type = ''apple'', row_count = 1, row_level = (0::int),
           row_group = Some ''G1''\<rparr>,
          \<lparr>row_filename = ''s2.mzXML'', row_food_type = ''apple'', row_count = 1, row_level = 0,
           row_group = Some ''G1''\<rparr>,
          \<lparr>row_filename = ''s1.mzXML'', row_food_type = ''beef'', row_count = 0, row_level = 0,
           row_group = Some ''G1''\<rparr>,
          \<lparr>row_filename = ''s2.mzXML'', row_food_type = ''beef'', row_count = 2, row_level = 0,
           row_group = Some ''G1''\<rparr>]"
  let ?m = "\<lparr>mat_index = [''s1.mzXML'', ''s2.mzXML''], mat_columns = [''apple'', ''beef''],
          mat_values = [[1, 0], [1, 2 :: int]]\<rparr>"
  have h: "fst (get_dataset_food_counts_all ''small.tsv'' ''all'' [''G1''] [''G4''] 0 example_world) = Inr ?long"
    by code_simp
  have d: "fst (get_dataset_food_counts ''small.tsv'' ''all'' [''G1''] [''G4''] 0 example_world) = Inr ?m"
    by code_simp
  note t = long_table_order [OF h]
  from t have s: "sorted (map row_level ?long)" by (rule conjunct1)
  have r: "(0::int) \<le> 0 \<and> (0::int) \<le> 0" by simp
  from conjunct2 [OF conjunct2 [OF t], rule_format, OF r] obtain m where
    m: "fst (get_dataset_food_counts ''small.tsv'' ''all'' [''G1''] [''G4''] 0 example_world) = Inr m"
    and p: "map (\<lambda>r. (row_food_type r, row_filename r)) (filter (\<lambda>r. row_level r = 0) ?long) =
                   List.product (mat_columns m) (mat_index m)"
    by blast
  from m d have "m = ?m" by simp
  with p have "[(''apple'', ''s1.mzXML''), (''apple'', ''s2.mzXML''), (''beef'', ''s1.mzXML''), (''beef'', ''s2.mzXML'')] =
     List.product [''apple'', ''beef''] [''s1.mzXML'', ''s2.mzXML'']"
    by simp
  moreover from s have "sorted [0, 0, 0, 0 :: int]" by simp
  ultimately show ?thesis using h d by blast
qed

text \<open>
  C7.  When \<open>get_dataset_food_counts_all\<close> returns a table, then for every level from
  0 to \<open>levels\<close> the rows of that level, reshaped by \<open>pivot_level\<close> (file names
  as index, food types as columns, the count as cell), are the matrix that
  \<open>get_dataset_food_counts\<close> returns for that level with the same arguments.
\<close>

theorem long_table_round_trip:
  assumes "fst (get_dataset_food_counts_all gnps_network sample_types all_groups some_groups levels w) = Inr long"
    and "0 \<le> lvl" and "lvl \<le> levels"
  shows "fst (get_dataset_food_counts gnps_network sample_types all_groups some_groups lvl w) =
           Inr (pivot_level long lvl)"
proof -
  from long_table_level [OF assms] obtain m val grp where
    r: "fst (get_dataset_food_counts gnps_network sample_types all_groups some_groups lvl w) = Inr m"
    and d: "distinct (mat_index m)" "mat_index m \<noteq> []" "distinct (mat_columns m)" "mat_columns m \<noteq> []"
    and vals: "mat_values m = map (\<lambda>f. map (val f) (mat_columns m)) (mat_index m)"
    and f: "filter (\<lambda>r. row_level r = lvl) long =
             concat (map (\<lambda>c. map (\<lambda>f. \<lparr>row_filename = f, row_food_type = c, row_count = val f c,
                                           row_level = lvl, row_group = grp f\<rparr>)
                                    (mat_index m))
                         (mat_columns m))"
    by blast
  have "pivot_level long lvl =
          \<lparr>mat_index = mat_index m, mat_columns = mat_columns m, mat_values = mat_values m\<rparr>"
    unfolding vals by (rule pivot_level_rows [OF f d])
  then have "pivot_level long lvl = m" by simp
  with r show ?thesis by simp
qed

theorem long_table_round_trip_witness:
  "fst (get_dataset_food_counts_all ''network.tsv'' ''all'' [''G1''] [''G4''] 1 example_world) =
     Inr [\<lparr>row_filename = ''s1.mzXML'', row_food_type = ''apple'', row_count = 2, row_level = 0, row_group = Some ''G1''\<rparr>,
          \<lparr>row_filename = ''s2.mzXML'', row_food_type = ''apple'', row_count = 1, row_level = 0, row_group = Some ''G1''\<rparr>,
          \<lparr>row_filename = ''s3.mzXML'', row_food_type = ''apple'', row_count = 0, row_level = 0, row_group = Some ''G1''\<rparr>,
          \<lparr>row_filename = ''s1.mzXML'', row_food_type = ''beef'', row_count = 0, row_level = 0, row_group = Some ''G1''\<rparr>,
          \<lparr>row_filename = ''s2.mzXML'', row_food_type = ''beef'', row_count = 3, row_level = 0, row_group = Some ''G1''\<rparr>,
          \<lparr>row_filename = ''s3.mzXML'', row_food_type = ''beef'', row_count = 0, row_level = 0, row_group = Some ''G1''\<rparr>,
          \<lparr>row_filename = ''s1.mzXML'', row_food_type = ''blank'', row_count = 0, row_level = 0, row_group = Some ''G1''\<rparr>,
          \<lparr>row_filename = ''s2.mzXML'', row_food_type = ''blank'', row_count = 1, row_level = 0, row_group = Some ''G1''\<rparr>,
          \<lparr>row_filename = ''s3.mzXML'', row_food_type = ''blank'', row_count = 1, row_level = 0, row_group = Some ''G1''\<rparr>,
          \<lparr>row_filename = ''s1.mzXML'', row_food_type = ''pear'', row_count = 1, row_level = 0, row_group = Some ''G1''\<rparr>,
          \<lparr>row_filename = ''s2.mzXML'', row_food_type = ''pear'', row_count = 1, row_level = 0, row_group = Some ''G1''\<rparr>,
          \<lparr>row_filename = ''s3.mzXML'', row_food_type = ''pear'', row_count = 0, row_level = 0, row_group = Some ''G1''\<rparr>,
          \<lparr>row_filename = ''s1.mzXML'', row_food_type = ''fruit'', row_count = 3, row_level = 1, row_group = Some ''G1''\<rparr>,
          \<lparr>row_filename = ''s2.mzXML'', row_food_type = ''fruit'', row_count = 2, row_level = 1, row_group = Some ''G1''\<rparr>,
          \<lparr>row_filename = ''s1.mzXML'', row_food_type = ''meat'', row_count = 0, row_level = 1, row_group = Some ''G1''\<rparr>,
          \<lparr>row_filename = ''s2.mzXML'', row_food_type = ''meat'', row_count = 3, row_level = 1, row_group = Some ''G1''\<rparr>] \<and>
   (0::int) \<le> 1 \<and> (1::int) \<le> 1 \<and>
   fst (get_dataset_food_counts ''network.tsv'' ''all'' [''G1''] [''G4''] 1 example_world) =
     Inr \<lparr>mat_index = [''s1.mzXML'', ''s2.mzXML''], mat_columns = [''fruit'', ''meat''],
          mat_values = [[3, 0], [2, 3]]\<rparr>"
proof -
  let ?long = "[\<lparr>row_filename = ''s1.mzXML'', row_food_type = ''apple'', row_count = 2, row_level = (0::int), row_group = Some ''G1''\<rparr>,
          \<lparr>row_filename = ''s2.mzXML'', row_food_type = ''apple'', row_count = 1, row_level = 0, row_group = Some ''G1''\<rparr>,
          \<lparr>row_filename = ''s3.mzXML'', row_food_type = ''apple'', row_count = 0, row_level = 0, row_group = Some ''G1''\<rparr>,
          \<lparr>row_filename = ''s1.mzXML'', row_food_type = ''beef'', row_count = 0, row_level = 0, row_group = Some ''G1''\<rparr>,
          \<lparr>row_filename = ''s2.mzXML'', row_food_type = ''beef'', row_count = 3, row_level = 0, row_group = Some ''G1''\<rparr>,
          \<lparr>row_filename = ''s3.mzXML'', row_food_type = ''beef'', row_count = 0, row_level = 0, row_group = Some ''G1''\<rparr>,
          \<lparr>row_filename = ''s1.mzXML'', row_food_type = ''blank'', row_count = 0, row_level = 0, row_group = Some ''G1''\<rparr>,
          \<lparr>row_filename = ''s2.mzXML'', row_food_type = ''blank'', row_count = 1, row_level = 0, row_group = Some ''G1''\<rparr>,
          \<lparr>row_filename = ''s3.mzXML'', row_food_type = ''blank'', row_count = 1, row_level = 0, row_group = Some ''G1''\<rparr>,
          \<lparr>row_filename = ''s1.mzXML'', row_food_type = ''pear'', row_count = 1, row_level = 0, row_group = Some ''G1''\<rparr>,
          \<lparr>row_filename = ''s2.mzXML'', row_food_type = ''pear'', row_count = 1, row_level = 0, row_group = Some ''G1''\<rparr>,
          \<lparr>row_filename = ''s3.mzXML'', row_food_type = ''pear'', row_count = 0, row_level = 0, row_group = Some ''G1''\<rparr>,
          \<lparr>row_filename = ''s1.mzXML'', row_food_type = ''fruit'', row_count = 3, row_level = 1, row_group = Some ''G1''\<rparr>,
          \<lparr>row_filename = ''s2.mzXML'', row_food_type = ''fruit'', row_count = 2, row_level = 1, row_group = Some ''G1''\<rparr>,
          \<lparr>row_filename = ''s1.mzXML'', row_food_type = ''meat'', row_count = 0, row_level = 1, row_group = Some ''G1''\<rparr>,
          \<lparr>row_filename = ''s2.mzXML'', row_food_type = ''meat'', row_count = 3, row_level = 1, row_group = Some ''G1''\<rparr>]"
  have h: "fst (get_dataset_food_counts_all ''network.tsv'' ''all'' [''G1''] [''G4''] 1 example_world) = Inr ?long"
    by code_simp
  have a: "(0::int) \<le> 1" and b: "(1::int) \<le> 1" by simp_all
  have p: "pivot_level ?long 1 =
             \<lparr>mat_index = [''s1.mzXML'', ''s2.mzXML''], mat_columns = [''fruit'', ''meat''],
              mat_values = [[3, 0], [2, 3]]\<rparr>"
    by code_simp
  from long_table_round_trip [OF h a b] p have
    "fst (get_dataset_food_counts ''network.tsv'' ''all'' [''G1''] [''G4''] 1 example_world) =
     Inr \<lparr>mat_index = [''s1.mzXML'', ''s2.mzXML''], mat_columns = [''fruit'', ''meat''],
          mat_values = [[3, 0], [2, 3]]\<rparr>"
    by simp
  with h a b show ?thesis by blast
qed

end
